theory Spec2Isabelle
  imports Complex_Main "HOL-Library.AList" "HOL-Library.Sublist"
begin

section \<open>Python values and the Groq tool call\<close>

text \<open>
  The tool call of a Groq chat completion (\<^verbatim>\<open>ChoiceMessageToolCall\<close>), as far as
  \<^verbatim>\<open>mirascope/groq/tools.py\<close> reads it: an optional \<^verbatim>\<open>function\<close> member with an
  optional \<^verbatim>\<open>arguments\<close> string. Every member of the vendor type is optional.
\<close>

record ChoiceMessageToolCallFunction =
  fn_arguments :: "string option"
  fn_name :: "string option"

record ChoiceMessageToolCall =
  tc_id :: "string option"
  tc_function :: "ChoiceMessageToolCallFunction option"
  tc_type :: "string option"

text \<open>
  A Python float, as far as \<^verbatim>\<open>json.loads\<close> builds one: a finite value (taken as a
  rational) or one of the three values it decodes from the constants \<^verbatim>\<open>NaN\<close>,
  \<^verbatim>\<open>Infinity\<close> and \<^verbatim>\<open>-Infinity\<close>.
\<close>

datatype pyfloat = Finite rat | NaN | PosInfinity | NegInfinity

text \<open>
  The Python objects that occur: the values \<^verbatim>\<open>json.loads\<close> builds (a dict is an
  association list in insertion order), and the tool call object itself, which
  \<^verbatim>\<open>from_tool_call\<close> stores in the parsed dict.
\<close>

datatype py =
    PyNone
  | PyBool bool
  | PyInt int
  | PyFloat pyfloat
  | PyStr string
  | PyList "py list"
  | PyDict "(string \<times> py) list"
  | PyToolCall ChoiceMessageToolCall

text \<open>
  \<^verbatim>\<open>json.loads\<close> is the standard library's; it is a parameter of the model. It returns
  the decoded value or raises; \<^verbatim>\<open>JSONDecodeError\<close> is its verdict that the text is not
  valid JSON, and any other exception (such as \<^verbatim>\<open>RecursionError\<close> on very deep nesting)
  is kept apart because the source catches \<^verbatim>\<open>JSONDecodeError\<close> only.
\<close>

datatype loads_error = JSONDecodeError | OtherLoadsError

type_synonym json_loads = "string \<Rightarrow> loads_error + py"

text \<open>
  What validation against the declared fields can report: the content of the spec's
  \<^verbatim>\<open>ArgumentValidationError\<close>.
\<close>

datatype validation_error =
    NotADict
  | MissingField string
  | WrongType string
  | MissingToolCall

text \<open>
  The exceptions that leave \<^verbatim>\<open>from_tool_call\<close>: the \<^verbatim>\<open>ValueError\<close> raised from a caught
  \<^verbatim>\<open>JSONDecodeError\<close>, an exception of \<^verbatim>\<open>json.loads\<close> that the \<^verbatim>\<open>except\<close> clause does
  not catch, the \<^verbatim>\<open>TypeError\<close> of an item assignment on an object that is not a dict,
  and the validation error of \<^verbatim>\<open>model_validate\<close>. In the spec's taxonomy the first is
  \<^verbatim>\<open>ArgumentParseError\<close> and the last is \<^verbatim>\<open>ArgumentValidationError\<close>.
\<close>

datatype error =
    ValueError_from_JSONDecodeError
  | Uncaught loads_error
  | TypeError
  | ValidationError validation_error

text \<open>
  Modelled from the spec: the instance of a tool (the spec's \<^verbatim>\<open>ToolInstance\<close>; the base
  class \<^verbatim>\<open>BaseTool\<close> is not among the sources). It carries the explicitly given argument
  values and the tool call it was built from.
\<close>

record GroqTool =
  args :: "(string \<times> py) list"
  tool_call :: ChoiceMessageToolCall

text \<open>
  A subclass \<^verbatim>\<open>cls\<close> of \<^verbatim>\<open>GroqTool\<close>, as far as the two class methods use it: what
  \<^verbatim>\<open>super().tool_schema()\<close> returns for it, and its \<^verbatim>\<open>model_validate\<close>.
\<close>

record GroqTool_class =
  super_tool_schema :: py
  model_validate :: "py \<Rightarrow> validation_error + GroqTool"

section \<open>The class methods of \<^verbatim>\<open>GroqTool\<close>\<close>

text \<open>
  Lines 72 to 84, \<^verbatim>\<open>GroqTool.tool_schema\<close>:
  \<^verbatim>\<open>return {"type": "function", "function": fn}\<close> with \<^verbatim>\<open>fn = super().tool_schema()\<close>.
\<close>

definition tool_schema :: "GroqTool_class \<Rightarrow> py" where
  "tool_schema cls =
     (let fn = super_tool_schema cls
      in PyDict [(''type'', PyStr ''function''), (''function'', fn)])"

text \<open>
  The \<^verbatim>\<open>try\<close> block: \<^verbatim>\<open>model_json = {}\<close>, replaced by \<^verbatim>\<open>json.loads(arguments)\<close> when
  \<^verbatim>\<open>tool_call.function and tool_call.function.arguments\<close> is truthy (the function
  member is not \<^verbatim>\<open>None\<close>, and its arguments are neither \<^verbatim>\<open>None\<close> nor the empty
  string).
\<close>

definition load_model_json :: "json_loads \<Rightarrow> ChoiceMessageToolCall \<Rightarrow> loads_error + py" where
  "load_model_json loads tc =
     (case tc_function tc of
        None \<Rightarrow> Inr (PyDict [])
      | Some f \<Rightarrow>
          (case fn_arguments f of
             None \<Rightarrow> Inr (PyDict [])
           | Some s \<Rightarrow> (if s = [] then Inr (PyDict []) else loads s)))"

text \<open>
  \<^verbatim>\<open>obj[key] = value\<close>: on a dict the key is replaced in place or appended; every other
  object that can stand here raises \<^verbatim>\<open>TypeError\<close>.
\<close>

fun setitem :: "py \<Rightarrow> string \<Rightarrow> py \<Rightarrow> error + py" where
  "setitem (PyDict d) k v = Inr (PyDict (AList.update k v d))"
| "setitem _ k v = Inl TypeError"

text \<open>
  Lines 102 to 109 of \<^verbatim>\<open>GroqTool.from_tool_call\<close>: the object handed to \<^verbatim>\<open>model_validate\<close>, or
  the exception raised before. Only \<^verbatim>\<open>JSONDecodeError\<close> is caught and re-raised as
  \<^verbatim>\<open>ValueError\<close>.
\<close>

definition build_model_json :: "json_loads \<Rightarrow> ChoiceMessageToolCall \<Rightarrow> error + py" where
  "build_model_json loads tc =
     (case load_model_json loads tc of
        Inl JSONDecodeError \<Rightarrow> Inl ValueError_from_JSONDecodeError
      | Inl OtherLoadsError \<Rightarrow> Inl (Uncaught OtherLoadsError)
      | Inr model_json \<Rightarrow> setitem model_json ''tool_call'' (PyToolCall tc))"

text \<open>Line 110: \<^verbatim>\<open>return cls.model_validate(model_json)\<close>.\<close>

definition from_tool_call ::
    "json_loads \<Rightarrow> GroqTool_class \<Rightarrow> ChoiceMessageToolCall \<Rightarrow> error + GroqTool" where
  "from_tool_call loads cls tc =
     (case build_model_json loads tc of
        Inl e \<Rightarrow> Inl e
      | Inr model_json \<Rightarrow>
          (case model_validate cls model_json of
             Inl e \<Rightarrow> Inl (ValidationError e)
           | Inr tool \<Rightarrow> Inr tool))"

text \<open>Reading a key of a dict object.\<close>

fun py_get :: "py \<Rightarrow> string \<Rightarrow> py option" where
  "py_get (PyDict d) k = map_of d k"
| "py_get _ k = None"

fun py_keys :: "py \<Rightarrow> string list" where
  "py_keys (PyDict d) = map fst d"
| "py_keys _ = []"

section \<open>Tool sources, the schema builder and validation\<close>

text \<open>
  Modelled from the spec: the structured-type definition (sections 3 and 4.1). The
  declared types are primitives, sequences and nested structured types. A field has a
  name, a type, an optional default and an optional description.
\<close>

datatype prim = PString | PInteger | PNumber | PBoolean

datatype ftype = TPrim prim | TArray ftype | TStruct struct
and struct = Struct (sname: string) (sdoc: string) (sfields: "field list")
and field = Field (fname: string) (ftype: ftype) (fdefault: "py option") (fdoc: "string option")

text \<open>
  Modelled from the spec: the two other kinds of tool source. A callable has a name, its
  parsed documentation (\<open>None\<close> when the documentation cannot be parsed) and its
  parameters, each with an optional annotation and an optional default. A
  primitive-wrapping type has a name and the primitive it wraps.
\<close>

datatype docstring = Docstring (doc_description: string) (doc_args: "(string \<times> string) list")

datatype param = Param (pname: string) (annotation: "ftype option") (pdefault: "py option")

record callable =
  c_name :: string
  c_doc :: "docstring option"
  c_params :: "param list"

record base_type =
  bt_name :: string
  bt_prim :: prim

text \<open>Modelled from the spec: the \<^verbatim>\<open>SchemaBuildError\<close> of section 7, naming a parameter.\<close>

datatype schema_error = SchemaBuildError string

text \<open>Modelled from the spec: the JSON schema type name of a primitive.\<close>

fun prim_name :: "prim \<Rightarrow> string" where
  "prim_name PString = ''string''"
| "prim_name PInteger = ''integer''"
| "prim_name PNumber = ''number''"
| "prim_name PBoolean = ''boolean''"

text \<open>
  Modelled from the spec: the shared schema builder (\<^verbatim>\<open>BaseTool.tool_schema\<close> and the
  JSON schema of the structured type, which are not among the sources). A primitive is
  rendered as its type name, a sequence as an array with its items, a nested structured
  type as an inline object; the fields without a default make the required list; the
  descriptions of the fields are kept.
\<close>

fun render_type :: "ftype \<Rightarrow> (string \<times> py) list"
and render_struct :: "struct \<Rightarrow> (string \<times> py) list"
and render_field :: "field \<Rightarrow> string \<times> py" where
  "render_type (TPrim p) = [(''type'', PyStr (prim_name p))]"
| "render_type (TArray t) = [(''type'', PyStr ''array''), (''items'', PyDict (render_type t))]"
| "render_type (TStruct s) = render_struct s"
| "render_struct (Struct n d fs) =
     [(''type'', PyStr ''object''),
      (''properties'', PyDict (map render_field fs)),
      (''required'', PyList (map (\<lambda>f. PyStr (fname f)) (filter (\<lambda>f. fdefault f = None) fs)))]"
| "render_field (Field n t dflt doc) =
     (n, PyDict (render_type t @
                 (case doc of None \<Rightarrow> [] | Some d \<Rightarrow> [(''description'', PyStr d)])))"

text \<open>
  Modelled from the spec: the vendor-neutral triple of name, description and parameters
  that \<^verbatim>\<open>BaseTool.tool_schema\<close> returns (the base class is not among the sources).
\<close>

definition base_tool_schema :: "struct \<Rightarrow> py" where
  "base_tool_schema s =
     PyDict [(''name'', PyStr (sname s)),
             (''description'', PyStr (sdoc s)),
             (''parameters'', PyDict (render_struct s))]"

text \<open>
  Modelled from the spec: validation of parsed arguments against the declared fields
  (\<^verbatim>\<open>model_validate\<close> of the tool class, which is not among the sources). A value must
  have the declared type, with no coercion; a field that is absent must have a default.
  The instance carries the values that were given for declared fields, and the tool call
  found under the reserved key.
\<close>

fun check_prim :: "prim \<Rightarrow> py \<Rightarrow> bool" where
  "check_prim PString (PyStr s) = True"
| "check_prim PInteger (PyInt i) = True"
| "check_prim PNumber (PyInt i) = True"
| "check_prim PNumber (PyFloat r) = True"
| "check_prim PBoolean (PyBool b) = True"
| "check_prim _ _ = False"

text \<open>
  Modelled from the spec: a value has a declared type; the declared fields are validated
  in order against a mapping, and the values given for them are collected.
\<close>

fun check_type :: "ftype \<Rightarrow> py \<Rightarrow> bool"
and validate_fields ::
    "field list \<Rightarrow> (string \<times> py) list \<Rightarrow> validation_error + (string \<times> py) list" where
  "check_type (TPrim p) v = check_prim p v"
| "check_type (TArray t) (PyList vs) = list_all (check_type t) vs"
| "check_type (TStruct (Struct n d fs)) (PyDict m) =
     (case validate_fields fs m of Inl e \<Rightarrow> False | Inr a \<Rightarrow> True)"
| "check_type _ _ = False"
| "validate_fields [] m = Inr []"
| "validate_fields (Field n t dflt doc # fs) m =
     (case map_of m n of
        None \<Rightarrow>
          (case dflt of
             None \<Rightarrow> Inl (MissingField n)
           | Some _ \<Rightarrow> validate_fields fs m)
      | Some v \<Rightarrow>
          (if check_type t v
           then (case validate_fields fs m of
                   Inl e \<Rightarrow> Inl e
                 | Inr a \<Rightarrow> Inr ((n, v) # a))
           else Inl (WrongType n)))"

text \<open>
  Modelled from the spec: \<^verbatim>\<open>model_validate\<close> of the tool class of a structured type (not
  among the sources): the object must be a dict that satisfies the declared fields and
  holds a tool call under \<^verbatim>\<open>tool_call\<close>.
\<close>

definition validate :: "struct \<Rightarrow> py \<Rightarrow> validation_error + GroqTool" where
  "validate s obj =
     (case obj of
        PyDict m \<Rightarrow>
          (case validate_fields (sfields s) m of
             Inl e \<Rightarrow> Inl e
           | Inr a \<Rightarrow>
               (case map_of m ''tool_call'' of
                  Some (PyToolCall tc) \<Rightarrow> Inr \<lparr>args = a, tool_call = tc\<rparr>
                | _ \<Rightarrow> Inl MissingToolCall))
      | _ \<Rightarrow> Inl NotADict)"

text \<open>
  Modelled from the spec: the tool class of a structured type, a subclass of \<^verbatim>\<open>GroqTool\<close>
  whose inherited methods (of \<^verbatim>\<open>BaseTool\<close>, not among the sources) are the two above.
\<close>

definition tool_class :: "struct \<Rightarrow> GroqTool_class" where
  "tool_class s = \<lparr>super_tool_schema = base_tool_schema s, model_validate = validate s\<rparr>"

text \<open>
  Modelled from the spec: the three conversions of \<^verbatim>\<open>mirascope/base/utils.py\<close>, which is
  not among the sources. A callable becomes a structured type whose fields mirror its
  parameters; a parameter without an annotation is a \<^verbatim>\<open>SchemaBuildError\<close> naming it;
  documentation that cannot be parsed gives an empty description. A primitive-wrapping
  type becomes a structured type with one field of a fixed reserved name (the spec fixes
  no spelling; \<^verbatim>\<open>value\<close> is used here).
\<close>

fun params_to_fields :: "(string \<times> string) list \<Rightarrow> param list \<Rightarrow> schema_error + field list" where
  "params_to_fields docs [] = Inr []"
| "params_to_fields docs (Param n ann dflt # ps) =
     (case ann of
        None \<Rightarrow> Inl (SchemaBuildError n)
      | Some t \<Rightarrow>
          (case params_to_fields docs ps of
             Inl e \<Rightarrow> Inl e
           | Inr fs \<Rightarrow> Inr (Field n t dflt (map_of docs n) # fs)))"

text \<open>
  Modelled from the spec: the structured type of a callable (operation: build schema
  from callable).
\<close>

definition function_to_struct :: "callable \<Rightarrow> schema_error + struct" where
  "function_to_struct fn =
     (let description = (case c_doc fn of None \<Rightarrow> [] | Some d \<Rightarrow> doc_description d);
          docs = (case c_doc fn of None \<Rightarrow> [] | Some d \<Rightarrow> doc_args d)
      in case params_to_fields docs (c_params fn) of
           Inl e \<Rightarrow> Inl e
         | Inr fs \<Rightarrow> Inr (Struct (c_name fn) description fs))"

text \<open>
  Modelled from the spec: the structured type of a primitive-wrapping type (operation:
  build schema from primitive-wrapping type).
\<close>

definition base_type_to_struct :: "base_type \<Rightarrow> struct" where
  "base_type_to_struct b = Struct (bt_name b) [] [Field ''value'' (TPrim (bt_prim b)) None None]"

text \<open>
  Modelled from the spec: \<^verbatim>\<open>convert_function_to_tool\<close>, \<^verbatim>\<open>convert_base_model_to_tool\<close> and
  \<^verbatim>\<open>convert_base_type_to_tool\<close> of \<^verbatim>\<open>mirascope/base/utils.py\<close> (not among the sources),
  called with \<^verbatim>\<open>GroqTool\<close> as the base class.
\<close>

definition convert_function_to_tool :: "callable \<Rightarrow> schema_error + GroqTool_class" where
  "convert_function_to_tool fn =
     (case function_to_struct fn of Inl e \<Rightarrow> Inl e | Inr s \<Rightarrow> Inr (tool_class s))"

definition convert_base_model_to_tool :: "struct \<Rightarrow> schema_error + GroqTool_class" where
  "convert_base_model_to_tool model = Inr (tool_class model)"

definition convert_base_type_to_tool :: "base_type \<Rightarrow> schema_error + GroqTool_class" where
  "convert_base_type_to_tool b = Inr (tool_class (base_type_to_struct b))"

text \<open>
  Lines 112 to 125: the class methods \<^verbatim>\<open>from_model\<close>, \<^verbatim>\<open>from_fn\<close> and
  \<^verbatim>\<open>from_base_type\<close> of \<^verbatim>\<open>GroqTool\<close> delegate to the conversions, with \<^verbatim>\<open>GroqTool\<close> as
  the base class.
\<close>

definition from_model :: "struct \<Rightarrow> schema_error + GroqTool_class" where
  "from_model model = convert_base_model_to_tool model"

definition from_fn :: "callable \<Rightarrow> schema_error + GroqTool_class" where
  "from_fn fn = convert_function_to_tool fn"

definition from_base_type :: "base_type \<Rightarrow> schema_error + GroqTool_class" where
  "from_base_type b = convert_base_type_to_tool b"

text \<open>The three kinds of tool source, and the fields each one declares.\<close>

datatype tool_source = FromFn callable | FromModel struct | FromBaseType base_type

fun tool_type :: "tool_source \<Rightarrow> schema_error + GroqTool_class" where
  "tool_type (FromFn fn) = from_fn fn"
| "tool_type (FromModel model) = from_model model"
| "tool_type (FromBaseType b) = from_base_type b"

text \<open>
  The declared fields of a source, read off the source itself: name, type and default of
  each parameter or field.
\<close>

fun declared :: "tool_source \<Rightarrow> (string \<times> ftype option \<times> py option) list" where
  "declared (FromFn fn) = map (\<lambda>p. (pname p, annotation p, pdefault p)) (c_params fn)"
| "declared (FromModel model) = map (\<lambda>f. (fname f, Some (ftype f), fdefault f)) (sfields model)"
| "declared (FromBaseType b) = [(''value'', Some (TPrim (bt_prim b)), None)]"

definition declared_names :: "tool_source \<Rightarrow> string list" where
  "declared_names src = map fst (declared src)"

definition required_names :: "tool_source \<Rightarrow> string list" where
  "required_names src = map fst (filter (\<lambda>(n, t, dflt). dflt = None) (declared src))"

definition optional_names :: "tool_source \<Rightarrow> string list" where
  "optional_names src = map fst (filter (\<lambda>(n, t, dflt). dflt \<noteq> None) (declared src))"

text \<open>
  An arguments mapping matches a source when every key names a declared field and its
  value has the type declared under that name, and every field without a default is
  present.
\<close>

definition matches :: "tool_source \<Rightarrow> (string \<times> py) list \<Rightarrow> bool" where
  "matches src m =
     (list_all (\<lambda>(k, v). k \<in> set (declared_names src) \<and>
                  list_all (\<lambda>(n, t, dflt). n = k \<longrightarrow>
                              (case t of None \<Rightarrow> False | Some t' \<Rightarrow> check_type t' v))
                           (declared src)) m
      \<and> list_all (\<lambda>k. k \<in> set (map fst m)) (required_names src))"

text \<open>The path \<^verbatim>\<open>schema["function"]["parameters"]\<close> of a rendered envelope.\<close>

definition schema_parameters :: "py \<Rightarrow> py option" where
  "schema_parameters schema =
     (case py_get schema ''function'' of
        None \<Rightarrow> None
      | Some fn \<Rightarrow> py_get fn ''parameters'')"

definition schema_required :: "py \<Rightarrow> py option" where
  "schema_required schema =
     (case schema_parameters schema of
        None \<Rightarrow> None
      | Some ps \<Rightarrow> py_get ps ''required'')"

definition schema_property :: "py \<Rightarrow> string \<Rightarrow> py option" where
  "schema_property schema k =
     (case schema_parameters schema of
        None \<Rightarrow> None
      | Some ps \<Rightarrow> (case py_get ps ''properties'' of None \<Rightarrow> None | Some props \<Rightarrow> py_get props k))"

definition schema_property_names :: "py \<Rightarrow> string list" where
  "schema_property_names schema =
     (case schema_parameters schema of
        None \<Rightarrow> []
      | Some ps \<Rightarrow> (case py_get ps ''properties'' of None \<Rightarrow> [] | Some props \<Rightarrow> py_keys props))"

definition schema_property_type :: "py \<Rightarrow> string \<Rightarrow> py option" where
  "schema_property_type schema k =
     (case schema_property schema k of None \<Rightarrow> None | Some p \<Rightarrow> py_get p ''type'')"

text \<open>
  Two notions used in the proofs: a field is satisfied by a mapping, and the declared
  fields of a structured type in the form \<open>declared\<close> gives them.
\<close>

definition field_ok :: "(string \<times> py) list \<Rightarrow> field \<Rightarrow> bool" where
  "field_ok m f =
     (case map_of m (fname f) of
        None \<Rightarrow> fdefault f \<noteq> None
      | Some v \<Rightarrow> check_type (ftype f) v)"

definition struct_declared :: "struct \<Rightarrow> (string \<times> ftype option \<times> py option) list" where
  "struct_declared s = map (\<lambda>f. (fname f, Some (ftype f), fdefault f)) (sfields s)"

text \<open>
  A source is annotated when every field it declares has a resolvable type. The fields of a
  structured type and of a primitive-wrapping type always have one; a parameter of a callable
  may lack it.
\<close>

definition annotated :: "tool_source \<Rightarrow> bool" where
  "annotated src = list_all (\<lambda>(n, t, dflt). t \<noteq> None) (declared src)"

section \<open>The class methods on a store of objects\<close>

text \<open>
  Python objects have an identity and can be updated in place, so whether a method changes
  an object it was given cannot be read off a function on values. For that question the
  objects live in a store: a list of objects, where the address of an object is its position.
  A new object is put at the end, and an update replaces the object at its address. An entry
  of a dict holds either a value of its own or a reference to another object of the store;
  the values \<^verbatim>\<open>json.loads\<close> builds are held as values, since no line of the methods
  reaches into them.
\<close>

type_synonym addr = nat

datatype hval = Val py | Ref addr

text \<open>
  The objects of the store: a tool call, a dict, any other decoded value, and an instance of
  a tool with its given arguments and its \<^verbatim>\<open>tool_call\<close> attribute.
\<close>

datatype hobj =
    ToolCallObj ChoiceMessageToolCall
  | DictObj "(string \<times> hval) list"
  | ValueObj py
  | ToolObj "(string \<times> py) list" hval

type_synonym heap = "hobj list"

definition obj_at :: "heap \<Rightarrow> addr \<Rightarrow> hobj option" where
  "obj_at h a = (if a < length h then Some (h ! a) else None)"

definition alloc :: "hobj \<Rightarrow> heap \<Rightarrow> addr \<times> heap" where
  "alloc ob h = (length h, h @ [ob])"

text \<open>The object that holds a decoded value: a dict object for a dict.\<close>

fun new_object :: "py \<Rightarrow> hobj" where
  "new_object (PyDict m) = DictObj (map (\<lambda>(k, v). (k, Val v)) m)"
| "new_object v = ValueObj v"

text \<open>
  The exceptions on a store: those of \<open>error\<close>, and the \<^verbatim>\<open>AttributeError\<close> of reading
  \<^verbatim>\<open>tool_call.function\<close> when the argument is not a tool call.
\<close>

datatype exn = AttributeError | Raised error

text \<open>
  \<^verbatim>\<open>obj[key] = value\<close> on the store: the dict at the address is updated in place; every other
  object raises \<^verbatim>\<open>TypeError\<close> and the store is as it was.
\<close>

definition setitem_st :: "addr \<Rightarrow> string \<Rightarrow> hval \<Rightarrow> heap \<Rightarrow> (error + unit) \<times> heap" where
  "setitem_st d k v h =
     (case obj_at h d of
        Some (DictObj m) \<Rightarrow> (Inr (), h[d := DictObj (AList.update k v m)])
      | _ \<Rightarrow> (Inl TypeError, h))"

text \<open>
  Lines 103 to 105: \<^verbatim>\<open>model_json = {}\<close> makes a new dict; when
  \<^verbatim>\<open>tool_call.function and tool_call.function.arguments\<close> is truthy, \<^verbatim>\<open>model_json\<close> becomes
  the new object that \<^verbatim>\<open>json.loads\<close> returns.
\<close>

definition load_model_json_st ::
    "json_loads \<Rightarrow> ChoiceMessageToolCall \<Rightarrow> heap \<Rightarrow> (loads_error + addr) \<times> heap" where
  "load_model_json_st loads tc h =
     (case alloc (DictObj []) h of
        (model_json, h0) \<Rightarrow>
          (case tc_function tc of
             None \<Rightarrow> (Inr model_json, h0)
           | Some f \<Rightarrow>
               (case fn_arguments f of
                  None \<Rightarrow> (Inr model_json, h0)
                | Some s \<Rightarrow>
                    (if s = [] then (Inr model_json, h0)
                     else (case loads s of
                             Inl e \<Rightarrow> (Inl e, h0)
                           | Inr v \<Rightarrow> (case alloc (new_object v) h0 of
                                         (loaded, h1) \<Rightarrow> (Inr loaded, h1)))))))"

text \<open>
  Lines 102 to 109 on the store, with the tool call passed by its address \<open>a\<close>: the
  \<^verbatim>\<open>try\<close> block, then \<^verbatim>\<open>model_json["tool_call"] = tool_call\<close>, which stores a reference to
  the object that was passed.
\<close>

definition build_model_json_st :: "json_loads \<Rightarrow> addr \<Rightarrow> heap \<Rightarrow> (exn + addr) \<times> heap" where
  "build_model_json_st loads a h =
     (case obj_at h a of
        Some (ToolCallObj tc) \<Rightarrow>
          (case load_model_json_st loads tc h of
             (Inl JSONDecodeError, h1) \<Rightarrow> (Inl (Raised ValueError_from_JSONDecodeError), h1)
           | (Inl OtherLoadsError, h1) \<Rightarrow> (Inl (Raised (Uncaught OtherLoadsError)), h1)
           | (Inr model_json, h1) \<Rightarrow>
               (case setitem_st model_json ''tool_call'' (Ref a) h1 of
                  (Inl e, h2) \<Rightarrow> (Inl (Raised e), h2)
                | (Inr u, h2) \<Rightarrow> (Inr model_json, h2)))
      | _ \<Rightarrow> (Inl AttributeError, h))"

text \<open>
  A subclass of \<^verbatim>\<open>GroqTool\<close> on the store: \<^verbatim>\<open>super().tool_schema()\<close> returns the address of
  a schema object, \<^verbatim>\<open>model_validate\<close> takes the address of the object to validate and returns
  the address of the instance; both may change the store.
\<close>

record GroqTool_class_st =
  super_tool_schema_st :: "heap \<Rightarrow> addr \<times> heap"
  model_validate_st :: "addr \<Rightarrow> heap \<Rightarrow> (validation_error + addr) \<times> heap"

text \<open>Line 110 on the store: \<^verbatim>\<open>return cls.model_validate(model_json)\<close>.\<close>

definition from_tool_call_st ::
    "json_loads \<Rightarrow> GroqTool_class_st \<Rightarrow> addr \<Rightarrow> heap \<Rightarrow> (exn + addr) \<times> heap" where
  "from_tool_call_st loads cls a h =
     (case build_model_json_st loads a h of
        (Inl e, h1) \<Rightarrow> (Inl e, h1)
      | (Inr model_json, h1) \<Rightarrow>
          (case model_validate_st cls model_json h1 of
             (Inl e, h2) \<Rightarrow> (Inl (Raised (ValidationError e)), h2)
           | (Inr tool, h2) \<Rightarrow> (Inr tool, h2)))"

text \<open>
  Lines 83 and 84 on the store: the envelope is a new dict that refers to the object
  \<^verbatim>\<open>super().tool_schema()\<close> returned.
\<close>

definition tool_schema_st :: "GroqTool_class_st \<Rightarrow> heap \<Rightarrow> addr \<times> heap" where
  "tool_schema_st cls h =
     (case super_tool_schema_st cls h of
        (fn, h1) \<Rightarrow>
          alloc (DictObj [(''type'', Val (PyStr ''function'')), (''function'', Ref fn)]) h1)"

text \<open>
  The value an object stands for. An object without references stands for its content; the
  entries of a dict that are references are followed once, which is as deep as the objects
  of the two methods nest. An instance of a tool is not a value of \<open>py\<close>.
\<close>

fun flat_entry :: "string \<times> hval \<Rightarrow> (string \<times> py) option" where
  "flat_entry (k, Val v) = Some (k, v)"
| "flat_entry (k, Ref a) = None"

fun flat_value :: "hobj \<Rightarrow> py option" where
  "flat_value (ToolCallObj tc) = Some (PyToolCall tc)"
| "flat_value (DictObj m) = map_option PyDict (those (map flat_entry m))"
| "flat_value (ValueObj v) = Some v"
| "flat_value (ToolObj a t) = None"

fun entry_value :: "heap \<Rightarrow> string \<times> hval \<Rightarrow> (string \<times> py) option" where
  "entry_value h (k, Val v) = Some (k, v)"
| "entry_value h (k, Ref a) =
     (case obj_at h a of
        None \<Rightarrow> None
      | Some ob \<Rightarrow> map_option (Pair k) (flat_value ob))"

definition obj_value :: "heap \<Rightarrow> addr \<Rightarrow> py option" where
  "obj_value h a =
     (case obj_at h a of
        None \<Rightarrow> None
      | Some (DictObj m) \<Rightarrow> map_option PyDict (those (map (entry_value h) m))
      | Some ob \<Rightarrow> flat_value ob)"

text \<open>The entry of the dict at an address under a key, as it is stored.\<close>

definition obj_entry :: "heap \<Rightarrow> addr \<Rightarrow> string \<Rightarrow> hval option" where
  "obj_entry h a k = (case obj_at h a of Some (DictObj m) \<Rightarrow> map_of m k | _ \<Rightarrow> None)"

text \<open>
  Modelled from the spec: the shared schema builder on the store (\<^verbatim>\<open>BaseTool.tool_schema\<close>,
  not among the sources) makes a new object that holds the triple of \<open>base_tool_schema\<close>.
\<close>

definition base_tool_schema_st :: "struct \<Rightarrow> heap \<Rightarrow> addr \<times> heap" where
  "base_tool_schema_st s h = alloc (new_object (base_tool_schema s)) h"

text \<open>
  Modelled from the spec: \<^verbatim>\<open>model_validate\<close> of the tool class of a structured type on the
  store (not among the sources). The value of the object is validated as by \<open>validate\<close>; the
  instance is a new object that carries the given arguments and, as its \<^verbatim>\<open>tool_call\<close>
  attribute, what the dict stores under \<^verbatim>\<open>tool_call\<close> (the spec's back-reference, not a
  copy). Nothing that exists is changed.
\<close>

definition validate_st :: "struct \<Rightarrow> addr \<Rightarrow> heap \<Rightarrow> (validation_error + addr) \<times> heap" where
  "validate_st s d h =
     (case obj_value h d of
        None \<Rightarrow> (Inl NotADict, h)
      | Some obj \<Rightarrow>
          (case validate s obj of
             Inl e \<Rightarrow> (Inl e, h)
           | Inr tool \<Rightarrow>
               (case obj_entry h d ''tool_call'' of
                  None \<Rightarrow> (Inl MissingToolCall, h)
                | Some r \<Rightarrow> (case alloc (ToolObj (args tool) r) h of (t, h1) \<Rightarrow> (Inr t, h1)))))"

text \<open>Modelled from the spec: the tool class of a structured type on the store.\<close>

definition tool_class_st :: "struct \<Rightarrow> GroqTool_class_st" where
  "tool_class_st s =
     \<lparr>super_tool_schema_st = base_tool_schema_st s, model_validate_st = validate_st s\<rparr>"

section \<open>Valid JSON\<close>

text \<open>
  The spec's notion of valid JSON: a recogniser for the grammar of RFC 8259, to compare with what
  \<^verbatim>\<open>json.loads\<close> accepts. It is no part of the program.
\<close>

text \<open>The characters of the grammar: whitespace, decimal digits, hexadecimal digits.\<close>

definition is_ws :: "char \<Rightarrow> bool" where
  "is_ws c = (c \<in> set [CHR '' '', CHR 0x09, CHR 0x0A, CHR 0x0D])"

definition is_digit :: "char \<Rightarrow> bool" where
  "is_digit c = (c \<in> set ''0123456789'')"

definition is_hex :: "char \<Rightarrow> bool" where
  "is_hex c = (c \<in> set ''0123456789abcdefABCDEF'')"

text \<open>
  \<^verbatim>\<open>number = [ minus ] int [ frac ] [ exp ]\<close>. Each function takes the text and gives the
  rest behind what it recognises, or \<open>None\<close>.
\<close>

definition json_digits1 :: "string \<Rightarrow> string option" where
  "json_digits1 s =
     (case s of
        [] \<Rightarrow> None
      | c # cs \<Rightarrow> if is_digit c then Some (dropWhile is_digit cs) else None)"

definition json_int :: "string \<Rightarrow> string option" where
  "json_int s =
     (case s of
        [] \<Rightarrow> None
      | c # cs \<Rightarrow> if c = CHR ''0'' then Some cs else json_digits1 s)"

definition json_frac :: "string \<Rightarrow> string option" where
  "json_frac s =
     (case s of
        [] \<Rightarrow> Some s
      | c # cs \<Rightarrow> if c = CHR ''.'' then json_digits1 cs else Some s)"

definition json_exp :: "string \<Rightarrow> string option" where
  "json_exp s =
     (case s of
        [] \<Rightarrow> Some s
      | c # cs \<Rightarrow>
          if c = CHR ''e'' \<or> c = CHR ''E'' then
            (case cs of
               [] \<Rightarrow> None
             | d # ds \<Rightarrow> if d = CHR ''+'' \<or> d = CHR ''-'' then json_digits1 ds else json_digits1 cs)
          else Some s)"

definition json_number :: "string \<Rightarrow> string option" where
  "json_number s =
     (case json_int (case s of [] \<Rightarrow> s | c # cs \<Rightarrow> if c = CHR ''-'' then cs else s) of
        None \<Rightarrow> None
      | Some r \<Rightarrow> (case json_frac r of None \<Rightarrow> None | Some r' \<Rightarrow> json_exp r'))"

text \<open>
  The characters of a string behind its opening quotation mark, up to and with the
  closing one: unescaped characters from \<^verbatim>\<open>0x20\<close> on, and after a reverse solidus one
  of the quotation mark, the reverse solidus, the solidus, \<^verbatim>\<open>b f n r t\<close>, or \<^verbatim>\<open>u\<close> with
  four hexadecimal digits.
\<close>

fun json_chars :: "string \<Rightarrow> string option" where
  "json_chars [] = None"
| "json_chars (c # cs) =
     (if c = CHR 0x22 then Some cs
      else if c = CHR 0x5C then
        (case cs of
           [] \<Rightarrow> None
         | e # es \<Rightarrow>
             if e \<in> set [CHR 0x22, CHR 0x5C, CHR ''/'', CHR ''b'', CHR ''f'', CHR ''n'',
                          CHR ''r'', CHR ''t'']
             then json_chars es
             else if e = CHR ''u'' then
               (case es of
                  h1 # h2 # h3 # h4 # rest \<Rightarrow>
                    if is_hex h1 \<and> is_hex h2 \<and> is_hex h3 \<and> is_hex h4
                    then json_chars rest else None
                | _ \<Rightarrow> None)
             else None)
      else if (of_char c :: nat) < 32 then None
      else json_chars cs)"

text \<open>
  \<^verbatim>\<open>value = false / null / true / object / array / number / string\<close>, with whitespace
  around the six structural characters. \<open>json_elements\<close> recognises what follows a value
  of an array, \<open>json_members\<close> the members of an object from a name on. The first argument
  bounds the number of nested calls; every call is on a shorter text than its caller, so the
  length of the text is enough.
\<close>

fun json_value :: "nat \<Rightarrow> string \<Rightarrow> string option"
and json_elements :: "nat \<Rightarrow> string \<Rightarrow> string option"
and json_members :: "nat \<Rightarrow> string \<Rightarrow> string option" where
  "json_value 0 s = None"
| "json_value (Suc n) s =
     (case dropWhile is_ws s of
        [] \<Rightarrow> None
      | c # cs \<Rightarrow>
          if c = CHR ''{'' then
            (case dropWhile is_ws cs of
               [] \<Rightarrow> None
             | d # ds \<Rightarrow> if d = CHR ''}'' then Some ds else json_members n (d # ds))
          else if c = CHR ''['' then
            (case dropWhile is_ws cs of
               [] \<Rightarrow> None
             | d # ds \<Rightarrow>
                 if d = CHR '']'' then Some ds
                 else (case json_value n (d # ds) of
                         None \<Rightarrow> None
                       | Some r \<Rightarrow> json_elements n r))
          else if c = CHR 0x22 then json_chars cs
          else if take 4 (c # cs) = ''true'' then Some (drop 4 (c # cs))
          else if take 5 (c # cs) = ''false'' then Some (drop 5 (c # cs))
          else if take 4 (c # cs) = ''null'' then Some (drop 4 (c # cs))
          else json_number (c # cs))"
| "json_elements 0 s = None"
| "json_elements (Suc n) s =
     (case dropWhile is_ws s of
        [] \<Rightarrow> None
      | c # cs \<Rightarrow>
          if c = CHR '']'' then Some cs
          else if c = CHR '','' then
            (case json_value n cs of
               None \<Rightarrow> None
             | Some r \<Rightarrow> json_elements n r)
          else None)"
| "json_members 0 s = None"
| "json_members (Suc n) s =
     (case dropWhile is_ws s of
        [] \<Rightarrow> None
      | c # cs \<Rightarrow>
          if c = CHR 0x22 then
            (case json_chars cs of
               None \<Rightarrow> None
             | Some r \<Rightarrow>
                 (case dropWhile is_ws r of
                    [] \<Rightarrow> None
                  | d # ds \<Rightarrow>
                      if d = CHR '':'' then
                        (case json_value n ds of
                           None \<Rightarrow> None
                         | Some r' \<Rightarrow>
                             (case dropWhile is_ws r' of
                                [] \<Rightarrow> None
                              | e # es \<Rightarrow>
                                  if e = CHR ''}'' then Some es
                                  else if e = CHR '','' then json_members n es
                                  else None))
                      else None))
          else None)"

text \<open>\<^verbatim>\<open>JSON-text = ws value ws\<close>.\<close>

definition valid_json :: "string \<Rightarrow> bool" where
  "valid_json s =
     (case json_value (Suc (length s)) s of
        None \<Rightarrow> False
      | Some r \<Rightarrow> dropWhile is_ws r = [])"

section \<open>Example inputs\<close>

text \<open>
  The callable of the spec's concrete scenario,
  \<^verbatim>\<open>lookup(city: str, units: str = "metric") -> str\<close>, with documented parameters.
\<close>

definition lookup_fn :: callable where
  "lookup_fn =
     \<lparr>c_name = ''lookup'',
      c_doc = Some (Docstring ''Looks up the weather.''
                      [(''city'', ''the city''), (''units'', ''the units'')]),
      c_params = [Param ''city'' (Some (TPrim PString)) None,
                  Param ''units'' (Some (TPrim PString)) (Some (PyStr ''metric''))]\<rparr>"

text \<open>A callable with a parameter named like the reserved key: \<^verbatim>\<open>def f(tool_call: str)\<close>.\<close>

definition collide_fn :: callable where
  "collide_fn =
     \<lparr>c_name = ''f'', c_doc = None,
      c_params = [Param ''tool_call'' (Some (TPrim PString)) None]\<rparr>"

text \<open>
  The same with a default, \<^verbatim>\<open>def g(tool_call: str = "x")\<close>: no parameter is required.
\<close>

definition collide_default_fn :: callable where
  "collide_default_fn =
     \<lparr>c_name = ''g'', c_doc = None,
      c_params = [Param ''tool_call'' (Some (TPrim PString)) (Some (PyStr ''x''))]\<rparr>"

text \<open>A callable with a parameter that has no annotation: \<^verbatim>\<open>def h(city: str, x)\<close>.\<close>

definition untyped_fn :: callable where
  "untyped_fn =
     \<lparr>c_name = ''h'', c_doc = None,
      c_params = [Param ''city'' (Some (TPrim PString)) None, Param ''x'' None None]\<rparr>"

text \<open>The structured types that the conversion builds from the three callables.\<close>

definition lookup_struct :: struct where
  "lookup_struct =
     Struct ''lookup'' ''Looks up the weather.''
       [Field ''city'' (TPrim PString) None (Some ''the city''),
        Field ''units'' (TPrim PString) (Some (PyStr ''metric'')) (Some ''the units'')]"

definition collide_struct :: struct where
  "collide_struct = Struct ''f'' [] [Field ''tool_call'' (TPrim PString) None None]"

definition collide_default_struct :: struct where
  "collide_default_struct =
     Struct ''g'' [] [Field ''tool_call'' (TPrim PString) (Some (PyStr ''x'')) None]"

text \<open>
  A structured type with a sequence and a nested structured type:
  \<^verbatim>\<open>class Tagged: tags: list[str]; inner: Inner\<close> with \<^verbatim>\<open>class Inner: n: int\<close>.
\<close>

definition tagged_struct :: struct where
  "tagged_struct =
     Struct ''Tagged'' ''A tagged value.''
       [Field ''tags'' (TArray (TPrim PString)) None None,
        Field ''inner'' (TStruct (Struct ''Inner'' [] [Field ''n'' (TPrim PInteger) None None]))
          None None]"

text \<open>A structured type with one number: \<^verbatim>\<open>class Reading: r: float\<close>.\<close>

definition reading_struct :: struct where
  "reading_struct = Struct ''Reading'' ''A reading.'' [Field ''r'' (TPrim PNumber) None None]"

text \<open>A primitive-wrapping type for a string.\<close>

definition str_type :: base_type where
  "str_type = \<lparr>bt_name = ''str'', bt_prim = PString\<rparr>"

text \<open>A tool call carrying the given arguments string.\<close>

definition call_with :: "string option \<Rightarrow> ChoiceMessageToolCall" where
  "call_with a =
     \<lparr>tc_id = Some ''call_1'',
      tc_function = Some \<lparr>fn_arguments = a, fn_name = Some ''lookup''\<rparr>,
      tc_type = Some ''function''\<rparr>"

text \<open>
  What \<^verbatim>\<open>json.loads\<close> returns on the texts used in the examples below; the table is
  consulted on these texts only.
\<close>

definition loads_examples :: json_loads where
  "loads_examples s =
     (case map_of
        [(''{}'', Inr (PyDict [])),
         (''[1]'', Inr (PyList [PyInt 1])),
         (''5'', Inr (PyInt 5)),
         (''{\"city\": \"Tokyo\"}'', Inr (PyDict [(''city'', PyStr ''Tokyo'')])),
         (''{\"tool_call\": \"x\"}'', Inr (PyDict [(''tool_call'', PyStr ''x'')])),
         (''{\"value\": \"x\"}'', Inr (PyDict [(''value'', PyStr ''x'')])),
         (''{\"tags\": [\"a\"], \"inner\": {\"n\": 1}}'',
          Inr (PyDict [(''tags'', PyList [PyStr ''a'']), (''inner'', PyDict [(''n'', PyInt 1)])])),
         (''{\"r\": NaN}'', Inr (PyDict [(''r'', PyFloat NaN)])),
         (''{not json'', Inl JSONDecodeError)] s of
        Some r \<Rightarrow> r
      | None \<Rightarrow> Inl JSONDecodeError)"

text \<open>
  Three stores. The first holds two unrelated objects and, at address 2, a tool call with
  the arguments of the spec's scenario; the second holds only a tool call equal to that one;
  the third holds a tool call with malformed arguments.
\<close>

definition store_example :: heap where
  "store_example =
     [ValueObj (PyInt 7), DictObj [(''k'', Val PyNone)],
      ToolCallObj (call_with (Some ''{\"city\": \"Tokyo\"}''))]"

definition store_other :: heap where
  "store_other = [ToolCallObj (call_with (Some ''{\"city\": \"Tokyo\"}''))]"

definition store_malformed :: heap where
  "store_malformed = [ToolCallObj (call_with (Some ''{not json''))]"

text \<open>
  A class whose base builder puts the size of the store into what it returns: a builder that
  does not return the same schema from every store.
\<close>

definition counting_class :: GroqTool_class_st where
  "counting_class =
     \<lparr>super_tool_schema_st = (\<lambda>h. alloc (ValueObj (PyInt (int (length h)))) h),
      model_validate_st = (\<lambda>d h. (Inl NotADict, h))\<rparr>"

section \<open>Facts about the class methods\<close>

subsection \<open>Building the object handed to validation\<close>

lemma load_model_json_falsy:
  assumes "tc_function tc = None \<or>
      (\<exists>f. tc_function tc = Some f \<and> (fn_arguments f = None \<or> fn_arguments f = Some []))"
  shows "load_model_json loads tc = Inr (PyDict [])"
  using assms by (auto simp: load_model_json_def)

lemma load_model_json_truthy:
  assumes "tc_function tc = Some f" "fn_arguments f = Some s" "s \<noteq> []"
  shows "load_model_json loads tc = loads s"
  using assms by (simp add: load_model_json_def)

lemma build_model_json_falsy:
  assumes "tc_function tc = None \<or>
      (\<exists>f. tc_function tc = Some f \<and> (fn_arguments f = None \<or> fn_arguments f = Some []))"
  shows "build_model_json loads tc = Inr (PyDict [(''tool_call'', PyToolCall tc)])"
  by (simp add: build_model_json_def load_model_json_falsy [OF assms])

lemma build_model_json_dict:
  assumes "tc_function tc = Some f" "fn_arguments f = Some s" "s \<noteq> []" "loads s = Inr (PyDict m)"
  shows "build_model_json loads tc = Inr (PyDict (AList.update ''tool_call'' (PyToolCall tc) m))"
  by (simp add: build_model_json_def load_model_json_truthy [OF assms(1-3)] assms(4))

lemma setitem_non_dict: "(\<forall>d. v \<noteq> PyDict d) \<Longrightarrow> setitem v k x = Inl TypeError"
  by (cases v) auto

lemma build_model_json_non_dict:
  assumes "tc_function tc = Some f" "fn_arguments f = Some s" "s \<noteq> []" "loads s = Inr v" "\<forall>d. v \<noteq> PyDict d"
  shows "build_model_json loads tc = Inl TypeError"
  by (simp add: build_model_json_def load_model_json_truthy [OF assms(1-3)] assms(4) setitem_non_dict [OF assms(5)])

lemma setitem_not_ValueError: "setitem v k x \<noteq> Inl ValueError_from_JSONDecodeError"
  by (cases v) auto

lemma build_model_json_ValueError_iff:
  "build_model_json loads tc = Inl ValueError_from_JSONDecodeError \<longleftrightarrow>
   load_model_json loads tc = Inl JSONDecodeError"
  by (auto simp: build_model_json_def setitem_not_ValueError split: sum.splits loads_error.splits)

lemma from_tool_call_ValueError_iff:
  "from_tool_call loads cls tc = Inl ValueError_from_JSONDecodeError \<longleftrightarrow>
   build_model_json loads tc = Inl ValueError_from_JSONDecodeError"
  by (auto simp: from_tool_call_def split: sum.splits)

lemma build_model_json_attached:
  assumes "build_model_json loads tc = Inr obj"
  shows "py_get obj ''tool_call'' = Some (PyToolCall tc)"
proof -
  from assms obtain v where v: "load_model_json loads tc = Inr v"
    and s: "setitem v ''tool_call'' (PyToolCall tc) = Inr obj"
    by (auto simp: build_model_json_def split: sum.splits loads_error.splits)
  from s obtain d where "v = PyDict d" by (cases v) auto
  with s show ?thesis by (auto simp: update_conv')
qed

lemma build_model_json_other_keys:
  assumes "build_model_json loads tc = Inr obj" "load_model_json loads tc = Inr v" "k \<noteq> ''tool_call''"
  shows "py_get obj k = py_get v k"
proof -
  from assms have s: "setitem v ''tool_call'' (PyToolCall tc) = Inr obj"
    by (auto simp: build_model_json_def)
  from s obtain d where "v = PyDict d" by (cases v) auto
  with s assms(3) show ?thesis by (auto simp: update_conv')
qed

subsection \<open>Validation of the declared fields\<close>

lemma validate_fields_Cons:
  "validate_fields (f # fs) m =
     (case map_of m (fname f) of
        None \<Rightarrow>
          (case fdefault f of
             None \<Rightarrow> Inl (MissingField (fname f))
           | Some _ \<Rightarrow> validate_fields fs m)
      | Some v \<Rightarrow>
          (if check_type (ftype f) v
           then (case validate_fields fs m of
                   Inl e \<Rightarrow> Inl e
                 | Inr a \<Rightarrow> Inr ((fname f, v) # a))
           else Inl (WrongType (fname f))))"
  by (cases f) (auto split: option.splits sum.splits)

lemma validate_fields_ok_iff:
  "(\<exists>a. validate_fields fs m = Inr a) \<longleftrightarrow> list_all (field_ok m) fs"
proof (induction fs)
  case Nil
  then show ?case by simp
next
  case (Cons f fs)
  show ?case
  proof (cases "field_ok m f")
    case True
    then have "(\<exists>a. validate_fields (f # fs) m = Inr a) \<longleftrightarrow> (\<exists>a. validate_fields fs m = Inr a)"
      by (auto simp: validate_fields_Cons field_ok_def split: option.splits sum.splits)
    with True Cons.IH show ?thesis by simp
  next
    case False
    then have "\<not> (\<exists>a. validate_fields (f # fs) m = Inr a)"
      by (auto simp: validate_fields_Cons field_ok_def split: option.splits sum.splits)
    with False show ?thesis by simp
  qed
qed

lemma validate_fields_args:
  "validate_fields fs m = Inr a \<Longrightarrow>
   map_of a k = (if k \<in> fname ` set fs then map_of m k else None)"
proof (induction fs arbitrary: a)
  case Nil
  then show ?case by simp
next
  case (Cons f fs)
  show ?case
  proof (cases "map_of m (fname f)")
    case None
    with Cons.prems have "validate_fields fs m = Inr a"
      by (simp add: validate_fields_Cons split: option.splits)
    from Cons.IH [OF this] None show ?thesis by auto
  next
    case (Some v)
    with Cons.prems obtain a' where a': "validate_fields fs m = Inr a'" "a = (fname f, v) # a'"
      by (auto simp: validate_fields_Cons split: if_splits sum.splits)
    from Cons.IH [OF a'(1)] a'(2) Some show ?thesis by auto
  qed
qed

lemma validate_fields_cong:
  "(\<And>f. f \<in> set fs \<Longrightarrow> map_of m (fname f) = map_of m' (fname f)) \<Longrightarrow>
   validate_fields fs m = validate_fields fs m'"
proof (induction fs)
  case Nil
  then show ?case by simp
next
  case (Cons f fs)
  have "map_of m (fname f) = map_of m' (fname f)" using Cons.prems by simp
  moreover have "validate_fields fs m = validate_fields fs m'" using Cons by simp
  ultimately show ?case by (simp add: validate_fields_Cons split: option.splits)
qed

lemma check_prim_ToolCall: "check_prim p (PyToolCall tc) = False"
  by (cases p) simp_all

lemma check_type_ToolCall: "check_type t (PyToolCall tc) = False"
  by (cases t) (simp_all add: check_prim_ToolCall)

subsection \<open>The tool class of a source\<close>

lemma params_to_fields_declared:
  "params_to_fields docs ps = Inr fs \<Longrightarrow>
   map (\<lambda>f. (fname f, Some (ftype f), fdefault f)) fs =
   map (\<lambda>p. (pname p, annotation p, pdefault p)) ps"
proof (induction ps arbitrary: fs)
  case Nil
  then show ?case by simp
next
  case (Cons p ps)
  then show ?case by (cases p) (auto split: option.splits sum.splits)
qed

lemma tool_type_struct:
  assumes "tool_type src = Inr cls"
  obtains s where "cls = tool_class s" "struct_declared s = declared src"
proof (cases src)
  case (FromFn fn)
  with assms obtain s where s: "function_to_struct fn = Inr s" "cls = tool_class s"
    by (auto simp: from_fn_def convert_function_to_tool_def split: sum.splits)
  then obtain fs where "params_to_fields (case c_doc fn of None \<Rightarrow> [] | Some d \<Rightarrow> doc_args d) (c_params fn) = Inr fs"
    "sfields s = fs"
    by (auto simp: function_to_struct_def Let_def split: sum.splits)
  then have "struct_declared s = declared src"
    using params_to_fields_declared FromFn by (simp add: struct_declared_def)
  with s that show ?thesis by blast
next
  case (FromModel model)
  with assms that [of model] show ?thesis
    by (simp add: from_model_def convert_base_model_to_tool_def struct_declared_def)
next
  case (FromBaseType b)
  with assms that [of "base_type_to_struct b"] show ?thesis
    by (simp add: from_base_type_def convert_base_type_to_tool_def struct_declared_def base_type_to_struct_def)
qed

lemma struct_names: "struct_declared s = declared src \<Longrightarrow> map fname (sfields s) = declared_names src"
proof -
  assume a: "struct_declared s = declared src"
  have "map fst (struct_declared s) = map fname (sfields s)"
    by (simp add: struct_declared_def o_def)
  with a show ?thesis by (simp add: declared_names_def)
qed

lemma struct_required:
  "struct_declared s = declared src \<Longrightarrow>
   map fname (filter (\<lambda>f. fdefault f = None) (sfields s)) = required_names src"
proof -
  assume a: "struct_declared s = declared src"
  have "map fst (filter (\<lambda>(n, t, dflt). dflt = None) (struct_declared s)) =
        map fname (filter (\<lambda>f. fdefault f = None) (sfields s))"
    unfolding struct_declared_def by (induction "sfields s" arbitrary: s) (auto simp: filter_map o_def)
  with a show ?thesis by (simp add: required_names_def)
qed

lemma render_struct_required:
  "map_of (render_struct s) ''required'' =
   Some (PyList (map PyStr (map fname (filter (\<lambda>f. fdefault f = None) (sfields s)))))"
  by (cases s) (simp add: o_def)

lemma schema_required_tool_class:
  "schema_required (tool_schema (tool_class s)) =
   Some (PyList (map PyStr (map fname (filter (\<lambda>f. fdefault f = None) (sfields s)))))"
  by (simp add: schema_required_def schema_parameters_def tool_schema_def tool_class_def
      base_tool_schema_def render_struct_required)

lemma validate_tool_class:
  "model_validate (tool_class s) = validate s" "super_tool_schema (tool_class s) = base_tool_schema s"
  by (simp_all add: tool_class_def)

lemma from_tool_call_tool_class:
  assumes "build_model_json loads tc = Inr (PyDict m')"
  shows "from_tool_call loads (tool_class s) tc =
     (case validate_fields (sfields s) m' of
        Inl e \<Rightarrow> Inl (ValidationError e)
      | Inr a \<Rightarrow> (case map_of m' ''tool_call'' of
                    Some (PyToolCall tc') \<Rightarrow> Inr \<lparr>args = a, tool_call = tc'\<rparr>
                  | _ \<Rightarrow> Inl (ValidationError MissingToolCall)))"
  using assms
  by (simp add: from_tool_call_def validate_tool_class validate_def split: sum.splits option.splits py.splits)

lemma matches_field_ok:
  assumes d: "struct_declared s = declared src" and m: "matches src m"
    and f: "f \<in> set (sfields s)"
  shows "field_ok m f"
proof (cases "map_of m (fname f)")
  case None
  have "fdefault f \<noteq> None"
  proof
    assume "fdefault f = None"
    with f have "fname f \<in> set (map fname (filter (\<lambda>f. fdefault f = None) (sfields s)))" by auto
    then have "fname f \<in> set (required_names src)" using struct_required [OF d] by simp
    with m have "fname f \<in> set (map fst m)" by (auto simp: matches_def list_all_iff)
    with None show False by (simp add: map_of_eq_None_iff)
  qed
  with None show ?thesis by (simp add: field_ok_def)
next
  case (Some v)
  then have "(fname f, v) \<in> set m" by (rule map_of_SomeD)
  with m have "list_all (\<lambda>(n, t, dflt). n = fname f \<longrightarrow>
                  (case t of None \<Rightarrow> False | Some t' \<Rightarrow> check_type t' v)) (declared src)"
    by (auto simp: matches_def list_all_iff)
  moreover have "(fname f, Some (ftype f), fdefault f) \<in> set (declared src)"
    using f d [symmetric] by (auto simp: struct_declared_def)
  ultimately have "check_type (ftype f) v" by (auto simp: list_all_iff)
  with Some show ?thesis by (simp add: field_ok_def)
qed

lemma empty_arguments_validation:
  assumes cls: "tool_type src = Inr cls"
    and falsy: "tc_function tc = None \<or>
      (\<exists>f. tc_function tc = Some f \<and> (fn_arguments f = None \<or> fn_arguments f = Some []))"
  shows "(\<exists>e. from_tool_call loads cls tc = Inl (ValidationError e)) \<longleftrightarrow>
           (required_names src \<noteq> [] \<or> ''tool_call'' \<in> set (declared_names src))"
    and "required_names src = [] \<and> ''tool_call'' \<notin> set (declared_names src) \<longrightarrow>
           from_tool_call loads cls tc = Inr \<lparr>args = [], tool_call = tc\<rparr>"
proof -
  from cls obtain s where s: "cls = tool_class s" "struct_declared s = declared src"
    by (rule tool_type_struct)
  let ?m' = "[(''tool_call'', PyToolCall tc)]"
  have b: "build_model_json loads tc = Inr (PyDict ?m')"
    using falsy by (rule build_model_json_falsy)
  have names: "fname ` set (sfields s) = set (declared_names src)"
    using struct_names [OF s(2)] set_map [of fname "sfields s"] by simp
  have req: "required_names src = [] \<longleftrightarrow> (\<forall>g \<in> set (sfields s). fdefault g \<noteq> None)"
    using struct_required [OF s(2)] by (auto simp: filter_empty_conv)
  have ok: "field_ok ?m' g \<longleftrightarrow> fdefault g \<noteq> None \<and> fname g \<noteq> ''tool_call''" for g
    by (simp add: field_ok_def check_type_ToolCall)
  have "''tool_call'' \<notin> fname ` set (sfields s) \<longleftrightarrow>
        (\<forall>g \<in> set (sfields s). fname g \<noteq> ''tool_call'')"
    by (auto simp: image_iff)
  then have all: "list_all (field_ok ?m') (sfields s) \<longleftrightarrow>
        required_names src = [] \<and> ''tool_call'' \<notin> set (declared_names src)"
    unfolding req names [symmetric] list_all_iff ok by blast
  have both: "((\<exists>e. from_tool_call loads cls tc = Inl (ValidationError e)) \<longleftrightarrow>
           (required_names src \<noteq> [] \<or> ''tool_call'' \<in> set (declared_names src)))
     \<and> (required_names src = [] \<and> ''tool_call'' \<notin> set (declared_names src) \<longrightarrow>
           from_tool_call loads cls tc = Inr \<lparr>args = [], tool_call = tc\<rparr>)"
  proof (cases "required_names src = [] \<and> ''tool_call'' \<notin> set (declared_names src)")
    case True
    with all obtain a where a: "validate_fields (sfields s) ?m' = Inr a"
      using validate_fields_ok_iff by blast
    have none: "map_of a k = None" for k
      using validate_fields_args [OF a, of k] True names by auto
    have "a = []"
    proof (cases a)
      case Nil
      then show ?thesis .
    next
      case (Cons p a')
      then have "map_of a (fst p) = Some (snd p)" by (cases p) simp
      with none show ?thesis by simp
    qed
    with a True show ?thesis by (simp add: from_tool_call_tool_class [OF b] s(1))
  next
    case False
    with all have "\<not> (\<exists>a. validate_fields (sfields s) ?m' = Inr a)"
      by (simp add: validate_fields_ok_iff)
    then obtain e where "validate_fields (sfields s) ?m' = Inl e"
      by (cases "validate_fields (sfields s) ?m'") auto
    with False show ?thesis by (auto simp add: from_tool_call_tool_class [OF b] s(1))
  qed
  from both show "(\<exists>e. from_tool_call loads cls tc = Inl (ValidationError e)) \<longleftrightarrow>
           (required_names src \<noteq> [] \<or> ''tool_call'' \<in> set (declared_names src))"
    by (rule conjunct1)
  from both show "required_names src = [] \<and> ''tool_call'' \<notin> set (declared_names src) \<longrightarrow>
           from_tool_call loads cls tc = Inr \<lparr>args = [], tool_call = tc\<rparr>"
    by (rule conjunct2)
qed

lemma from_fn_lookup: "from_fn lookup_fn = Inr (tool_class lookup_struct)"
  by (simp add: from_fn_def convert_function_to_tool_def function_to_struct_def lookup_fn_def
      lookup_struct_def)

subsection \<open>The rendered schema\<close>

lemma fst_render_field: "fst (render_field f) = fname f"
  by (cases f) simp

lemma render_field_type_prim:
  "ftype f = TPrim p \<Longrightarrow> \<exists>d. snd (render_field f) = PyDict d \<and> map_of d ''type'' = Some (PyStr (prim_name p))"
  by (cases f) simp

lemma map_of_render_fields:
  "distinct (map fname fs) \<Longrightarrow> f \<in> set fs \<Longrightarrow>
   map_of (map render_field fs) (fname f) = Some (snd (render_field f))"
proof (induction fs)
  case Nil
  then show ?case by simp
next
  case (Cons g fs)
  show ?case
  proof (cases "f = g")
    case True
    then show ?thesis by (cases g) simp
  next
    case False
    with Cons.prems have "f \<in> set fs" "fname g \<noteq> fname f" by auto
    with Cons show ?thesis by (cases g) simp
  qed
qed

lemma render_struct_properties:
  "map_of (render_struct s) ''properties'' = Some (PyDict (map render_field (sfields s)))"
  by (cases s) simp

lemma schema_property_tool_class:
  "schema_property (tool_schema (tool_class s)) k = map_of (map render_field (sfields s)) k"
  by (simp add: schema_property_def schema_parameters_def tool_schema_def tool_class_def
      base_tool_schema_def render_struct_properties)

lemma schema_property_names_tool_class:
  "schema_property_names (tool_schema (tool_class s)) = map fname (sfields s)"
  by (simp add: schema_property_names_def schema_parameters_def tool_schema_def tool_class_def
      base_tool_schema_def render_struct_properties o_def fst_render_field)

lemma required_optional_disjoint:
  assumes d: "distinct (declared_names src)" and o: "n \<in> set (optional_names src)"
  shows "n \<notin> set (required_names src)"
proof
  assume r: "n \<in> set (required_names src)"
  from d have inj: "inj_on fst (set (declared src))"
    by (simp add: declared_names_def distinct_map)
  from o obtain x where x: "x \<in> set (declared src)" "fst x = n" "snd (snd x) \<noteq> None"
    by (auto simp: optional_names_def)
  from r obtain y where y: "y \<in> set (declared src)" "fst y = n" "snd (snd y) = None"
    by (auto simp: required_names_def)
  from inj x(1,2) y(1,2) have "x = y" by (auto dest: inj_onD)
  with x(3) y(3) show False by simp
qed

text \<open>Which sources have a tool class, and what the schema of that class holds.\<close>

lemma params_to_fields_annotated:
  "list_all (\<lambda>p. annotation p \<noteq> None) ps \<Longrightarrow> \<exists>fs. params_to_fields docs ps = Inr fs"
proof (induction ps)
  case Nil
  then show ?case by simp
next
  case (Cons p ps)
  then show ?case by (cases p) auto
qed

lemma params_to_fields_unannotated:
  "\<not> list_all (\<lambda>p. annotation p \<noteq> None) ps \<Longrightarrow>
   \<exists>n. params_to_fields docs ps = Inl (SchemaBuildError n) \<and> n \<in> pname ` set ps"
proof (induction ps)
  case Nil
  then show ?case by simp
next
  case (Cons p ps)
  show ?case
  proof (cases "annotation p")
    case None
    then show ?thesis by (cases p) simp
  next
    case (Some t)
    with Cons.prems have "\<not> list_all (\<lambda>p. annotation p \<noteq> None) ps" by simp
    from Cons.IH [OF this] obtain n where
      "params_to_fields docs ps = Inl (SchemaBuildError n)" "n \<in> pname ` set ps" by blast
    with Some show ?thesis by (cases p) auto
  qed
qed

lemma annotated_FromFn:
  "annotated (FromFn fn) \<longleftrightarrow> list_all (\<lambda>p. annotation p \<noteq> None) (c_params fn)"
  by (simp add: annotated_def list_all_iff)

lemma annotated_others: "annotated (FromModel model)" "annotated (FromBaseType b)"
  by (simp_all add: annotated_def list_all_iff)

lemma tool_type_annotated: "annotated src \<Longrightarrow> \<exists>cls. tool_type src = Inr cls"
proof (cases src)
  case (FromFn fn)
  assume "annotated src"
  with FromFn have "list_all (\<lambda>p. annotation p \<noteq> None) (c_params fn)"
    by (simp add: annotated_FromFn)
  from params_to_fields_annotated [OF this]
  obtain fs where "params_to_fields (case c_doc fn of None \<Rightarrow> [] | Some d \<Rightarrow> doc_args d)
      (c_params fn) = Inr fs" by blast
  with FromFn show ?thesis
    by (simp add: from_fn_def convert_function_to_tool_def function_to_struct_def)
next
  case (FromModel model)
  then show ?thesis by (simp add: from_model_def convert_base_model_to_tool_def)
next
  case (FromBaseType b)
  then show ?thesis by (simp add: from_base_type_def convert_base_type_to_tool_def)
qed

lemma tool_type_unannotated:
  assumes "\<not> annotated src"
  shows "\<exists>n. tool_type src = Inl (SchemaBuildError n) \<and> n \<in> set (declared_names src)"
proof (cases src)
  case (FromFn fn)
  with assms have "\<not> list_all (\<lambda>p. annotation p \<noteq> None) (c_params fn)"
    by (simp add: annotated_FromFn)
  from params_to_fields_unannotated [OF this]
  obtain n where n: "params_to_fields (case c_doc fn of None \<Rightarrow> [] | Some d \<Rightarrow> doc_args d)
      (c_params fn) = Inl (SchemaBuildError n)" "n \<in> pname ` set (c_params fn)" by blast
  from n(2) have "n \<in> set (declared_names src)"
    using FromFn by (auto simp: declared_names_def image_iff)
  with n(1) FromFn show ?thesis
    by (simp add: from_fn_def convert_function_to_tool_def function_to_struct_def)
next
  case (FromModel model)
  with assms show ?thesis by (simp add: annotated_others)
next
  case (FromBaseType b)
  with assms show ?thesis by (simp add: annotated_others)
qed

lemma fidelity_of_class:
  assumes cls: "tool_type src = Inr cls"
  shows "schema_required (tool_schema cls) = Some (PyList (map PyStr (required_names src)))
     \<and> schema_property_names (tool_schema cls) = declared_names src
     \<and> (distinct (declared_names src) \<longrightarrow>
          (\<forall>n \<in> set (optional_names src). n \<notin> set (required_names src))
          \<and> (\<forall>(n, t, dflt) \<in> set (declared src). \<forall>p. t = Some (TPrim p) \<longrightarrow>
                schema_property_type (tool_schema cls) n = Some (PyStr (prim_name p))))"
proof -
  from cls obtain s where s: "cls = tool_class s" "struct_declared s = declared src"
    by (rule tool_type_struct)
  have 1: "schema_required (tool_schema cls) = Some (PyList (map PyStr (required_names src)))"
    using struct_required [OF s(2)] by (simp add: s(1) schema_required_tool_class)
  have 2: "schema_property_names (tool_schema cls) = declared_names src"
    using struct_names [OF s(2)] by (simp add: s(1) schema_property_names_tool_class)
  have 3: "schema_property_type (tool_schema cls) n = Some (PyStr (prim_name p))"
    if d: "distinct (declared_names src)" and e: "(n, Some (TPrim p), dflt) \<in> set (declared src)"
    for n p dflt
  proof -
    from e have "(n, Some (TPrim p), dflt) \<in> set (struct_declared s)" using s(2) by simp
    then obtain f where f: "f \<in> set (sfields s)" "fname f = n" "ftype f = TPrim p"
      by (auto simp: struct_declared_def)
    from d have "distinct (map fname (sfields s))" using struct_names [OF s(2)] by simp
    from map_of_render_fields [OF this f(1)] render_field_type_prim [OF f(3)] f(2)
    show ?thesis by (auto simp: schema_property_type_def s(1) schema_property_tool_class)
  qed
  show ?thesis
    using 1 2 3 required_optional_disjoint [of src] by blast
qed

subsection \<open>The example inputs\<close>

lemma from_fn_collide: "from_fn collide_fn = Inr (tool_class collide_struct)"
  by (simp add: from_fn_def convert_function_to_tool_def function_to_struct_def collide_fn_def
      collide_struct_def)

lemma from_fn_collide_default:
  "from_fn collide_default_fn = Inr (tool_class collide_default_struct)"
  by (simp add: from_fn_def convert_function_to_tool_def function_to_struct_def
      collide_default_fn_def collide_default_struct_def)

lemma call_with_function:
  "tc_function (call_with a) = Some \<lparr>fn_arguments = a, fn_name = Some ''lookup''\<rparr>"
  by (simp add: call_with_def)

lemma build_model_json_call_with:
  assumes "raw \<noteq> []" "loads raw = Inr (PyDict m)"
  shows "build_model_json loads (call_with (Some raw)) =
         Inr (PyDict (AList.update ''tool_call'' (PyToolCall (call_with (Some raw))) m))"
  using build_model_json_dict
      [of "call_with (Some raw)" "\<lparr>fn_arguments = Some raw, fn_name = Some ''lookup''\<rparr>"
          raw loads m] assms
  by (simp add: call_with_function)

subsection \<open>The recogniser on the example texts\<close>

lemmas json_number_defs =
  json_number_def json_int_def json_frac_def json_exp_def json_digits1_def is_digit_def

lemma valid_json_examples:
  "valid_json ''{}''" "valid_json ''[1]''" "valid_json ''5''"
  "valid_json ''{\"city\": \"Tokyo\"}''"
  "valid_json ''{\"tool_call\": \"x\"}''"
  "valid_json ''{\"value\": \"x\"}''"
  "valid_json ''{\"tags\": [\"a\"], \"inner\": {\"n\": 1}}''"
  "\<not> valid_json ''{not json''"
  "\<not> valid_json ''{\"r\": NaN}''"
  by (simp_all add: valid_json_def is_ws_def json_number_defs)

text \<open>The text with \<^verbatim>\<open>NaN\<close> is rejected whatever the bound on nesting.\<close>

lemma not_json_for_any_bound: "json_value n ''{\"r\": NaN}'' = None"
proof (cases n)
  case 0
  then show ?thesis by simp
next
  case (Suc m)
  show ?thesis
  proof (cases m)
    case 0
    with Suc show ?thesis by (simp add: is_ws_def)
  next
    case (Suc k)
    with \<open>n = Suc m\<close> show ?thesis
      by (cases k) (simp_all add: is_ws_def json_number_defs)
  qed
qed

subsection \<open>The class methods on a store\<close>

lemma obj_at_append: "a < length h \<Longrightarrow> obj_at (h @ xs) a = obj_at h a"
  by (simp add: obj_at_def nth_append)

lemma obj_at_Some_less: "obj_at h a = Some ob \<Longrightarrow> a < length h"
  by (simp add: obj_at_def split: if_splits)

lemma obj_at_prefix: "prefix h h' \<Longrightarrow> obj_at h a = Some ob \<Longrightarrow> obj_at h' a = Some ob"
proof -
  assume p: "prefix h h'" and o: "obj_at h a = Some ob"
  from p obtain zs where "h' = h @ zs" by (auto simp: prefix_def)
  with o obj_at_Some_less [OF o] show ?thesis by (simp add: obj_at_append)
qed

lemma those_flat: "those (map flat_entry (map (\<lambda>(k, v). (k, Val v)) m)) = Some m"
  by (induction m) (auto simp del: map_map)

lemma flat_value_new_object: "flat_value (new_object v) = Some v"
  by (cases v) (simp_all add: those_flat del: map_map)

lemma those_entry_value:
  "those (map (entry_value h) (map (\<lambda>(k, v). (k, Val v)) m)) = Some m"
  by (induction m) (auto simp del: map_map)

lemma those_entry_value_update:
  assumes "obj_at h a = Some (ToolCallObj tc)"
  shows "those (map (entry_value h) (AList.update k (Ref a) (map (\<lambda>(k, v). (k, Val v)) m)))
         = Some (AList.update k (PyToolCall tc) m)"
  using assms by (induction m) (auto simp: those_entry_value simp del: map_map)

lemma setitem_st_new:
  "setitem_st (length h) k v (h @ [DictObj m]) = (Inr (), h @ [DictObj (AList.update k v m)])"
  by (simp add: setitem_st_def obj_at_def)

lemma setitem_st_new2:
  "setitem_st (Suc (length h)) k v (h @ [x, ob]) =
     (case ob of
        DictObj m \<Rightarrow> (Inr (), h @ [x, DictObj (AList.update k v m)])
      | _ \<Rightarrow> (Inl TypeError, h @ [x, ob]))"
  by (simp add: setitem_st_def obj_at_def nth_append list_update_append split: hobj.splits)

lemma build_model_json_st_falsy:
  assumes a: "obj_at h a = Some (ToolCallObj tc)"
    and f: "tc_function tc = None \<or>
      (\<exists>f. tc_function tc = Some f \<and> (fn_arguments f = None \<or> fn_arguments f = Some []))"
  shows "build_model_json_st loads a h = (Inr (length h), h @ [DictObj [(''tool_call'', Ref a)]])"
proof -
  from f have "load_model_json_st loads tc h = (Inr (length h), h @ [DictObj []])"
    by (auto simp: load_model_json_st_def alloc_def)
  with a show ?thesis by (simp add: build_model_json_st_def setitem_st_new)
qed

lemma build_model_json_st_truthy:
  assumes a: "obj_at h a = Some (ToolCallObj tc)"
    and t: "tc_function tc = Some f" "fn_arguments f = Some s" "s \<noteq> []"
  shows "build_model_json_st loads a h =
     (case loads s of
        Inl JSONDecodeError \<Rightarrow> (Inl (Raised ValueError_from_JSONDecodeError), h @ [DictObj []])
      | Inl OtherLoadsError \<Rightarrow> (Inl (Raised (Uncaught OtherLoadsError)), h @ [DictObj []])
      | Inr v \<Rightarrow>
          (case new_object v of
             DictObj m \<Rightarrow>
               (Inr (Suc (length h)),
                h @ [DictObj [], DictObj (AList.update ''tool_call'' (Ref a) m)])
           | ob \<Rightarrow> (Inl (Raised TypeError), h @ [DictObj [], ob])))"
proof -
  from t have "load_model_json_st loads tc h =
      (case loads s of
         Inl e \<Rightarrow> (Inl e, h @ [DictObj []])
       | Inr v \<Rightarrow> (Inr (Suc (length h)), h @ [DictObj [], new_object v]))"
    by (simp add: load_model_json_st_def alloc_def split: sum.splits)
  with a show ?thesis
    by (simp add: build_model_json_st_def setitem_st_new2
        split: sum.splits loads_error.splits hobj.splits)
qed

lemma obj_value_new_dict:
  assumes a: "obj_at h a = Some (ToolCallObj tc)"
  shows "obj_value (h @ xs @ [DictObj (AList.update k (Ref a) (map (\<lambda>(k, v). (k, Val v)) m))])
           (length h + length xs)
         = Some (PyDict (AList.update k (PyToolCall tc) m))"
proof -
  let ?h = "h @ xs @ [DictObj (AList.update k (Ref a) (map (\<lambda>(k, v). (k, Val v)) m))]"
  from a have "obj_at ?h a = Some (ToolCallObj tc)"
    using obj_at_Some_less [OF a] by (simp add: obj_at_append)
  from those_entry_value_update [OF this, of k m]
  have "those (map (entry_value ?h) (AList.update k (Ref a) (map (\<lambda>(k, v). (k, Val v)) m)))
          = Some (AList.update k (PyToolCall tc) m)" .
  moreover have "obj_at ?h (length h + length xs)
      = Some (DictObj (AList.update k (Ref a) (map (\<lambda>(k, v). (k, Val v)) m)))"
    by (simp add: obj_at_def nth_append)
  ultimately show ?thesis by (simp add: obj_value_def del: map_map)
qed

lemma obj_entry_new_dict:
  "obj_entry (h @ xs @ [DictObj (AList.update k v m)]) (length h + length xs) k = Some v"
  by (simp add: obj_entry_def obj_at_def nth_append update_conv')

text \<open>
  Lines 102 to 109 on a store: the store is only extended, and the outcome is that of
  \<open>build_model_json\<close>; the object handed on is new, has the value that \<open>build_model_json\<close>
  gives, and holds a reference to the tool call that was passed.
\<close>

lemma build_model_json_st_refines:
  assumes a: "obj_at h a = Some (ToolCallObj tc)"
  shows "\<exists>r h1. build_model_json_st loads a h = (r, h1) \<and> prefix h h1
     \<and> (case build_model_json loads tc of
           Inl e \<Rightarrow> r = Inl (Raised e)
         | Inr v \<Rightarrow>
             (\<exists>d. r = Inr d \<and> length h \<le> d \<and> obj_value h1 d = Some v
                \<and> obj_entry h1 d ''tool_call'' = Some (Ref a)))"
proof (cases "tc_function tc = None \<or>
      (\<exists>f. tc_function tc = Some f \<and> (fn_arguments f = None \<or> fn_arguments f = Some []))")
  case True
  have v: "obj_value (h @ [DictObj [(''tool_call'', Ref a)]]) (length h)
      = Some (PyDict [(''tool_call'', PyToolCall tc)])"
    using obj_value_new_dict [OF a, of "[]" "''tool_call''" "[]"] by simp
  have e: "obj_entry (h @ [DictObj [(''tool_call'', Ref a)]]) (length h) ''tool_call'' = Some (Ref a)"
    using obj_entry_new_dict [of h "[]" "''tool_call''" "Ref a" "[]"] by simp
  from v e show ?thesis
    by (simp add: build_model_json_st_falsy [OF a True] build_model_json_falsy [OF True])
next
  case False
  then obtain f s where t: "tc_function tc = Some f" "fn_arguments f = Some s" "s \<noteq> []"
    by (cases "tc_function tc") auto
  show ?thesis
  proof (cases "loads s")
    case (Inl e)
    then show ?thesis
      by (cases e)
         (simp_all add: build_model_json_st_truthy [OF a t] build_model_json_def
            load_model_json_truthy [OF t])
  next
    case (Inr v)
    show ?thesis
    proof (cases "\<exists>m. v = PyDict m")
      case True
      then obtain m where m: "v = PyDict m" by blast
      have v: "obj_value (h @ [DictObj [],
            DictObj (AList.update ''tool_call'' (Ref a) (map (\<lambda>(k, v). (k, Val v)) m))])
            (Suc (length h))
          = Some (PyDict (AList.update ''tool_call'' (PyToolCall tc) m))"
        using obj_value_new_dict [OF a, of "[DictObj []]" "''tool_call''" m] by simp
      have e: "obj_entry (h @ [DictObj [],
            DictObj (AList.update ''tool_call'' (Ref a) (map (\<lambda>(k, v). (k, Val v)) m))])
            (Suc (length h)) ''tool_call'' = Some (Ref a)"
        using obj_entry_new_dict [of h "[DictObj []]" "''tool_call''" "Ref a"
            "map (\<lambda>(k, v). (k, Val v)) m"] by simp
      from v e show ?thesis
        by (simp add: build_model_json_st_truthy [OF a t] build_model_json_dict [OF t] Inr m
            del: map_map)
    next
      case False
      then have n: "\<forall>d. v \<noteq> PyDict d" by blast
      from n have "new_object v = ValueObj v" by (cases v) auto
      moreover have "build_model_json loads tc = Inl TypeError"
        using build_model_json_non_dict [of tc f s loads v] t Inr n by simp
      ultimately show ?thesis
        by (simp add: build_model_json_st_truthy [OF a t] Inr)
    qed
  qed
qed

lemma validate_st_eq:
  assumes "obj_value h d = Some v" "obj_entry h d ''tool_call'' = Some r"
  shows "validate_st s d h =
     (case validate s v of
        Inl e \<Rightarrow> (Inl e, h)
      | Inr tool \<Rightarrow> (Inr (length h), h @ [ToolObj (args tool) r]))"
  using assms by (simp add: validate_st_def alloc_def split: sum.splits)

text \<open>
  The whole of \<open>from_tool_call\<close> on a store, for the tool class of a structured type: the
  store is only extended, the outcome is that of \<open>from_tool_call\<close>, and the instance is a new
  object that refers to the tool call that was passed.
\<close>

lemma from_tool_call_st_refines:
  assumes a: "obj_at h a = Some (ToolCallObj tc)"
  shows "\<exists>r h'. from_tool_call_st loads (tool_class_st s) a h = (r, h') \<and> prefix h h'
     \<and> (case from_tool_call loads (tool_class s) tc of
           Inl e \<Rightarrow> r = Inl (Raised e)
         | Inr tool \<Rightarrow>
             (\<exists>t. r = Inr t \<and> length h \<le> t
                \<and> obj_at h' t = Some (ToolObj (args tool) (Ref a))))"
proof -
  from build_model_json_st_refines [OF a, of loads]
  obtain r h1 where b: "build_model_json_st loads a h = (r, h1)" and p: "prefix h h1"
    and c: "case build_model_json loads tc of
           Inl e \<Rightarrow> r = Inl (Raised e)
         | Inr v \<Rightarrow>
             (\<exists>d. r = Inr d \<and> length h \<le> d \<and> obj_value h1 d = Some v
                \<and> obj_entry h1 d ''tool_call'' = Some (Ref a))"
    by blast
  show ?thesis
  proof (cases "build_model_json loads tc")
    case (Inl e)
    with b p c show ?thesis by (simp add: from_tool_call_st_def from_tool_call_def)
  next
    case (Inr v)
    with c obtain d where d: "r = Inr d" "obj_value h1 d = Some v"
      "obj_entry h1 d ''tool_call'' = Some (Ref a)" by auto
    from p have l: "length h \<le> length h1" by (auto simp: prefix_def)
    from p have p2: "prefix h (h1 @ xs)" for xs by (auto simp: prefix_def)
    show ?thesis
    proof (cases "validate s v")
      case (Inl e)
      with b p d Inr show ?thesis
        by (simp add: from_tool_call_st_def from_tool_call_def tool_class_st_def tool_class_def
            validate_st_eq [OF d(2,3)])
    next
      case (Inr tool)
      with b p l d \<open>build_model_json loads tc = Inr v\<close> show ?thesis
        by (simp add: from_tool_call_st_def from_tool_call_def tool_class_st_def tool_class_def
            validate_st_eq [OF d(2,3)] obj_at_def)
    qed
  qed
qed

text \<open>\<open>tool_schema\<close> on a store, for the tool class of a structured type.\<close>

lemma obj_value_envelope:
  assumes "obj_at h fn = Some ob" "flat_value ob = Some S"
  shows "obj_value (h @ xs @ [DictObj [(''type'', Val (PyStr ''function'')), (''function'', Ref fn)]])
           (length h + length xs)
         = Some (PyDict [(''type'', PyStr ''function''), (''function'', S)])"
proof -
  let ?h = "h @ xs @ [DictObj [(''type'', Val (PyStr ''function'')), (''function'', Ref fn)]]"
  from assms(1) have "obj_at ?h fn = Some ob"
    using obj_at_Some_less [OF assms(1)] by (simp add: obj_at_append)
  moreover have "obj_at ?h (length h + length xs)
      = Some (DictObj [(''type'', Val (PyStr ''function'')), (''function'', Ref fn)])"
    by (simp add: obj_at_def nth_append)
  ultimately show ?thesis using assms(2) by (simp add: obj_value_def)
qed

lemma tool_schema_st_eq:
  "tool_schema_st (tool_class_st s) h =
     (Suc (length h),
      h @ [new_object (base_tool_schema s),
           DictObj [(''type'', Val (PyStr ''function'')), (''function'', Ref (length h))]])"
  by (simp add: tool_schema_st_def tool_class_st_def base_tool_schema_st_def alloc_def)

lemma tool_schema_st_value:
  "obj_value (h @ [new_object (base_tool_schema s),
           DictObj [(''type'', Val (PyStr ''function'')), (''function'', Ref (length h))]] @ xs)
      (Suc (length h)) = Some (tool_schema (tool_class s))"
proof -
  let ?h1 = "h @ [new_object (base_tool_schema s)]"
  have o: "obj_at ?h1 (length h) = Some (new_object (base_tool_schema s))"
    by (simp add: obj_at_def)
  let ?h2 = "?h1 @ [] @ [DictObj [(''type'', Val (PyStr ''function'')), (''function'', Ref (length h))]]"
  from obj_value_envelope [OF o flat_value_new_object, of "[]"]
  have v: "obj_value ?h2 (Suc (length h)) = Some (tool_schema (tool_class s))"
    by (simp add: tool_schema_def tool_class_def)
  have 1: "obj_at (?h2 @ xs) (Suc (length h)) = obj_at ?h2 (Suc (length h))"
    by (rule obj_at_append) simp
  have 2: "obj_at (?h2 @ xs) (length h) = obj_at ?h2 (length h)"
    by (rule obj_at_append) simp
  from v 1 2 show ?thesis
    by (simp add: obj_value_def obj_at_def nth_append)
qed


text \<open>The store is only extended.\<close>

lemma validate_st_prefix: "prefix h (snd (validate_st s d h))"
  by (simp add: validate_st_def alloc_def split: option.splits sum.splits)

lemma build_model_json_st_prefix: "prefix h (snd (build_model_json_st loads a h))"
proof (cases "\<exists>tc. obj_at h a = Some (ToolCallObj tc)")
  case True
  then obtain tc where a: "obj_at h a = Some (ToolCallObj tc)" by blast
  from build_model_json_st_refines [OF a, of loads] show ?thesis by auto
next
  case False
  then show ?thesis
    by (auto simp: build_model_json_st_def split: option.splits hobj.splits)
qed

lemma from_tool_call_st_prefix:
  assumes v: "\<forall>d h1. prefix h1 (snd (model_validate_st cls d h1))"
  shows "prefix h (snd (from_tool_call_st loads cls a h))"
proof -
  obtain r h1 where b: "build_model_json_st loads a h = (r, h1)" by (cases "build_model_json_st loads a h")
  from build_model_json_st_prefix [of h loads a] b have p: "prefix h h1" by simp
  show ?thesis
  proof (cases r)
    case (Inl e)
    with b p show ?thesis by (simp add: from_tool_call_st_def)
  next
    case (Inr d)
    obtain q h2 where m: "model_validate_st cls d h1 = (q, h2)" by (cases "model_validate_st cls d h1")
    from v have "prefix h1 (snd (model_validate_st cls d h1))" by blast
    with m have "prefix h1 h2" by simp
    with p have "prefix h h2" by (rule prefix_order.trans)
    with b Inr m show ?thesis by (simp add: from_tool_call_st_def split: sum.splits)
  qed
qed

text \<open>Two calls of \<open>tool_schema\<close> in a row.\<close>

lemma obj_value_envelope_at:
  assumes "obj_at h e = Some (DictObj [(''type'', Val (PyStr ''function'')), (''function'', Ref fn)])"
    "obj_at h fn = Some ob" "flat_value ob = Some S"
  shows "obj_value h e = Some (PyDict [(''type'', PyStr ''function''), (''function'', S)])"
  using assms by (simp add: obj_value_def)

lemma tool_schema_st_twice:
  assumes b: "\<forall>h. \<exists>fn h' ob. super_tool_schema_st cls h = (fn, h') \<and> prefix h h'
                  \<and> obj_at h' fn = Some ob \<and> flat_value ob = Some S"
  shows "\<exists>e1 h1 e2 h2. tool_schema_st cls h = (e1, h1) \<and> tool_schema_st cls h1 = (e2, h2)
      \<and> e1 \<noteq> e2 \<and> prefix h h1 \<and> prefix h1 h2
      \<and> obj_value h1 e1 = Some (PyDict [(''type'', PyStr ''function''), (''function'', S)])
      \<and> obj_value h2 e1 = Some (PyDict [(''type'', PyStr ''function''), (''function'', S)])
      \<and> obj_value h2 e2 = Some (PyDict [(''type'', PyStr ''function''), (''function'', S)])"
proof -
  let ?env = "\<lambda>fn. DictObj [(''type'', Val (PyStr ''function'')), (''function'', Ref fn)]"
  from b obtain fn1 g1 ob1 where 1: "super_tool_schema_st cls h = (fn1, g1)" "prefix h g1"
      "obj_at g1 fn1 = Some ob1" "flat_value ob1 = Some S" by blast
  let ?h1 = "g1 @ [?env fn1]"
  from b obtain fn2 g2 ob2 where 2: "super_tool_schema_st cls ?h1 = (fn2, g2)" "prefix ?h1 g2"
      "obj_at g2 fn2 = Some ob2" "flat_value ob2 = Some S" by blast
  let ?h2 = "g2 @ [?env fn2]"
  have t1: "tool_schema_st cls h = (length g1, ?h1)"
    by (simp add: tool_schema_st_def 1(1) alloc_def)
  have t2: "tool_schema_st cls ?h1 = (length g2, ?h2)"
    by (simp add: tool_schema_st_def 2(1) alloc_def)
  from 2(2) have l: "length g1 < length g2" by (auto simp: prefix_def)
  have p1: "prefix h ?h1" using 1(2) by (auto simp: prefix_def)
  have p2: "prefix ?h1 ?h2" using 2(2) by (auto simp: prefix_def)
  have e1: "obj_at ?h1 (length g1) = Some (?env fn1)" by (simp add: obj_at_def)
  have f1: "obj_at ?h1 fn1 = Some ob1"
    using obj_at_prefix [of g1 ?h1 fn1 ob1] 1(3) by (simp add: prefix_def)
  have e2: "obj_at ?h2 (length g2) = Some (?env fn2)" by (simp add: obj_at_def)
  have f2: "obj_at ?h2 fn2 = Some ob2"
    using obj_at_prefix [of g2 ?h2 fn2 ob2] 2(3) by (simp add: prefix_def)
  have v1: "obj_value ?h1 (length g1) = Some (PyDict [(''type'', PyStr ''function''), (''function'', S)])"
    using e1 f1 1(4) by (rule obj_value_envelope_at)
  have v12: "obj_value ?h2 (length g1) = Some (PyDict [(''type'', PyStr ''function''), (''function'', S)])"
    using obj_at_prefix [OF p2 e1] obj_at_prefix [OF p2 f1] 1(4) by (rule obj_value_envelope_at)
  have v2: "obj_value ?h2 (length g2) = Some (PyDict [(''type'', PyStr ''function''), (''function'', S)])"
    using e2 f2 2(4) by (rule obj_value_envelope_at)
  from t1 t2 l p1 p2 v1 v12 v2 show ?thesis by simp
qed

lemma base_tool_schema_st_returns:
  "\<exists>fn h' ob. super_tool_schema_st (tool_class_st s) h = (fn, h') \<and> prefix h h'
       \<and> obj_at h' fn = Some ob \<and> flat_value ob = Some (base_tool_schema s)"
  by (simp add: tool_class_st_def base_tool_schema_st_def alloc_def obj_at_def
      flat_value_new_object)

text \<open>The run on the arguments of the spec's scenario, in any store.\<close>

lemma from_tool_call_st_lookup:
  assumes a: "obj_at h a = Some (ToolCallObj (call_with (Some ''{\"city\": \"Tokyo\"}'')))"
  shows "from_tool_call_st loads_examples (tool_class_st lookup_struct) a h
     = (Inr (length h + 2),
        h @ [DictObj [],
             DictObj [(''city'', Val (PyStr ''Tokyo'')), (''tool_call'', Ref a)],
             ToolObj [(''city'', PyStr ''Tokyo'')] (Ref a)])"
proof -
  let ?tc = "call_with (Some ''{\"city\": \"Tokyo\"}'')"
  have l: "loads_examples ''{\"city\": \"Tokyo\"}'' = Inr (PyDict [(''city'', PyStr ''Tokyo'')])"
    by (simp add: loads_examples_def)
  have t: "tc_function ?tc
      = Some \<lparr>fn_arguments = Some ''{\"city\": \"Tokyo\"}'', fn_name = Some ''lookup''\<rparr>"
    by (simp add: call_with_def)
  let ?h1 = "h @ [DictObj [], DictObj [(''city'', Val (PyStr ''Tokyo'')), (''tool_call'', Ref a)]]"
  have b: "build_model_json_st loads_examples a h = (Inr (Suc (length h)), ?h1)"
    using build_model_json_st_truthy [OF a t, of "''{\"city\": \"Tokyo\"}''" loads_examples]
    by (simp add: l)
  have v: "obj_value ?h1 (Suc (length h)) = Some (PyDict [(''city'', PyStr ''Tokyo''),
              (''tool_call'', PyToolCall ?tc)])"
    using obj_value_new_dict [OF a, of "[DictObj []]" "''tool_call''" "[(''city'', PyStr ''Tokyo'')]"]
    by simp
  have e: "obj_entry ?h1 (Suc (length h)) ''tool_call'' = Some (Ref a)"
    using obj_entry_new_dict [of h "[DictObj []]" "''tool_call''" "Ref a"
        "[(''city'', Val (PyStr ''Tokyo''))]"]
    by simp
  have p: "validate lookup_struct (PyDict [(''city'', PyStr ''Tokyo''),
              (''tool_call'', PyToolCall ?tc)])
       = Inr \<lparr>args = [(''city'', PyStr ''Tokyo'')], tool_call = ?tc\<rparr>"
    by (simp add: validate_def lookup_struct_def)
  have "validate_st lookup_struct (Suc (length h)) ?h1
      = (Inr (length ?h1), ?h1 @ [ToolObj [(''city'', PyStr ''Tokyo'')] (Ref a)])"
    unfolding validate_st_eq [OF v e] p by simp
  with b show ?thesis by (simp add: from_tool_call_st_def tool_class_st_def)
qed

text \<open>
  Two calls of \<open>tool_schema\<close> in a row on a class whose base builder depends on the store give
  envelopes of different values: the envelope is as repeatable as the base builder is.
\<close>

lemma tool_schema_st_counting:
  "\<exists>e1 h1 e2 h2 v1 v2. tool_schema_st counting_class h = (e1, h1)
      \<and> tool_schema_st counting_class h1 = (e2, h2)
      \<and> obj_value h2 e1 = Some v1 \<and> obj_value h2 e2 = Some v2 \<and> v1 \<noteq> v2"
proof -
  let ?env = "\<lambda>fn. DictObj [(''type'', Val (PyStr ''function'')), (''function'', Ref fn)]"
  let ?h1 = "h @ [ValueObj (PyInt (int (length h))), ?env (length h)]"
  let ?h2 = "?h1 @ [ValueObj (PyInt (int (length h + 2))), ?env (length h + 2)]"
  have 1: "tool_schema_st counting_class h = (Suc (length h), ?h1)"
    by (simp add: tool_schema_st_def counting_class_def alloc_def)
  have 2: "tool_schema_st counting_class ?h1 = (length h + 3, ?h2)"
    by (simp add: tool_schema_st_def counting_class_def alloc_def)
  have v1: "obj_value ?h2 (Suc (length h))
      = Some (PyDict [(''type'', PyStr ''function''), (''function'', PyInt (int (length h)))])"
    by (rule obj_value_envelope_at [where fn = "length h" and ob = "ValueObj (PyInt (int (length h)))"])
       (simp_all add: obj_at_def nth_append)
  have v2: "obj_value ?h2 (length h + 3)
      = Some (PyDict [(''type'', PyStr ''function''), (''function'', PyInt (int (length h + 2)))])"
    by (rule obj_value_envelope_at [where fn = "length h + 2"
          and ob = "ValueObj (PyInt (int (length h + 2)))"])
       (simp_all add: obj_at_def nth_append)
  from 1 2 v1 v2 show ?thesis by simp
qed

section \<open>The claims\<close>

text \<open>
  C1. A tool call whose arguments string is present (the function member is there and
  its arguments are a non-empty string) and on which \<^verbatim>\<open>json.loads\<close> raises
  \<^verbatim>\<open>JSONDecodeError\<close> makes \<open>from_tool_call\<close> fail with the \<^verbatim>\<open>ValueError\<close> raised from
  it, and so never gives a tool instance; this failure arises only in that way; and
  another exception of \<^verbatim>\<open>json.loads\<close> leaves \<open>from_tool_call\<close> as it is.
\<close>

theorem malformed_json_rejected:
  "(tc_function tc = Some f \<and> fn_arguments f = Some s \<and> s \<noteq> [] \<and>
      loads s = Inl JSONDecodeError \<longrightarrow>
      from_tool_call loads cls tc = Inl ValueError_from_JSONDecodeError \<and>
      (\<forall>tool. from_tool_call loads cls tc \<noteq> Inr tool))
   \<and> (from_tool_call loads cls tc = Inl ValueError_from_JSONDecodeError \<longrightarrow>
        (\<exists>g r. tc_function tc = Some g \<and> fn_arguments g = Some r \<and> r \<noteq> [] \<and>
               loads r = Inl JSONDecodeError))
   \<and> (tc_function tc = Some f \<and> fn_arguments f = Some s \<and> s \<noteq> [] \<and>
      loads s = Inl OtherLoadsError \<longrightarrow>
      from_tool_call loads cls tc = Inl (Uncaught OtherLoadsError))"
proof -
  have "load_model_json loads tc = Inl JSONDecodeError \<longleftrightarrow>
        (\<exists>g r. tc_function tc = Some g \<and> fn_arguments g = Some r \<and> r \<noteq> [] \<and>
               loads r = Inl JSONDecodeError)"
    by (auto simp: load_model_json_def split: option.splits)
  then have 1: "from_tool_call loads cls tc = Inl ValueError_from_JSONDecodeError \<longleftrightarrow>
        (\<exists>g r. tc_function tc = Some g \<and> fn_arguments g = Some r \<and> r \<noteq> [] \<and>
               loads r = Inl JSONDecodeError)"
    by (simp add: from_tool_call_ValueError_iff build_model_json_ValueError_iff)
  have 2: "from_tool_call loads cls tc = Inl (Uncaught OtherLoadsError)"
    if "tc_function tc = Some f" "fn_arguments f = Some s" "s \<noteq> []"
      "loads s = Inl OtherLoadsError"
    using that
    by (simp add: from_tool_call_def build_model_json_def load_model_json_truthy [of tc f s])
  from 1 2 show ?thesis by auto
qed

theorem malformed_json_rejected_witness:
  "loads_examples ''{not json'' = Inl JSONDecodeError
   \<and> from_tool_call loads_examples (tool_class lookup_struct) (call_with (Some ''{not json''))
       = Inl ValueError_from_JSONDecodeError"
proof -
  have l: "loads_examples ''{not json'' = Inl JSONDecodeError"
    by (simp add: loads_examples_def)
  have "tc_function (call_with (Some ''{not json''))
          = Some \<lparr>fn_arguments = Some ''{not json'', fn_name = Some ''lookup''\<rparr>"
    by (simp add: call_with_def)
  with l malformed_json_rejected
    [of "call_with (Some ''{not json'')"
        "\<lparr>fn_arguments = Some ''{not json'', fn_name = Some ''lookup''\<rparr>"
        "''{not json''" loads_examples "tool_class lookup_struct"]
  show ?thesis by simp
qed

text \<open>
  C1 as stated, for every text that is not valid JSON, fails: the text \<^verbatim>\<open>{"r": NaN}\<close> is
  not valid JSON, \<^verbatim>\<open>json.loads\<close> accepts it, and \<open>from_tool_call\<close> gives an instance of
  the tool \<^verbatim>\<open>Reading\<close> that holds the value \<^verbatim>\<open>NaN\<close>.
\<close>

theorem malformed_json_counterexample:
  "\<not> valid_json ''{\"r\": NaN}''
   \<and> loads_examples ''{\"r\": NaN}'' = Inr (PyDict [(''r'', PyFloat NaN)])
   \<and> tc_function (call_with (Some ''{\"r\": NaN}''))
        = Some \<lparr>fn_arguments = Some ''{\"r\": NaN}'', fn_name = Some ''lookup''\<rparr>
   \<and> build_model_json loads_examples (call_with (Some ''{\"r\": NaN}''))
        = Inr (PyDict [(''r'', PyFloat NaN),
                       (''tool_call'', PyToolCall (call_with (Some ''{\"r\": NaN}'')))])
   \<and> from_tool_call loads_examples (tool_class reading_struct)
        (call_with (Some ''{\"r\": NaN}''))
        = Inr \<lparr>args = [(''r'', PyFloat NaN)],
               tool_call = call_with (Some ''{\"r\": NaN}'')\<rparr>"
proof -
  have v: "\<not> valid_json ''{\"r\": NaN}''"
    by (simp add: valid_json_def is_ws_def json_number_defs)
  have l: "loads_examples ''{\"r\": NaN}'' = Inr (PyDict [(''r'', PyFloat NaN)])"
    by (simp add: loads_examples_def)
  have b: "build_model_json loads_examples (call_with (Some ''{\"r\": NaN}''))
        = Inr (PyDict [(''r'', PyFloat NaN),
                       (''tool_call'', PyToolCall (call_with (Some ''{\"r\": NaN}'')))])"
    using build_model_json_call_with
        [of "''{\"r\": NaN}''" loads_examples "[(''r'', PyFloat NaN)]"] l
    by simp
  have r: "from_tool_call loads_examples (tool_class reading_struct)
        (call_with (Some ''{\"r\": NaN}''))
        = Inr \<lparr>args = [(''r'', PyFloat NaN)],
               tool_call = call_with (Some ''{\"r\": NaN}'')\<rparr>"
    by (simp add: from_tool_call_tool_class [OF b] reading_struct_def)
  show ?thesis by (intro conjI v l call_with_function b r)
qed

text \<open>
  C2. For every tool class, \<open>tool_schema\<close> is the dict with exactly the keys \<^verbatim>\<open>type\<close> and
  \<^verbatim>\<open>function\<close>, in this order, holding the string \<^verbatim>\<open>function\<close> and the unchanged
  result of the base class; for the tool class of a structured type that result is the
  triple of name, description and parameters.
\<close>

theorem tool_schema_envelope:
  "tool_schema cls = PyDict [(''type'', PyStr ''function''), (''function'', super_tool_schema cls)]
   \<and> py_keys (tool_schema cls) = [''type'', ''function'']
   \<and> py_get (tool_schema cls) ''type'' = Some (PyStr ''function'')
   \<and> py_get (tool_schema cls) ''function'' = Some (super_tool_schema cls)
   \<and> tool_schema (tool_class s) =
       PyDict [(''type'', PyStr ''function''),
               (''function'', PyDict [(''name'', PyStr (sname s)),
                                      (''description'', PyStr (sdoc s)),
                                      (''parameters'', PyDict (render_struct s))])]"
  by (simp add: tool_schema_def tool_class_def base_tool_schema_def)

text \<open>
  C3. Round trip, for every kind of tool source that declares no field under the
  reserved key \<^verbatim>\<open>tool_call\<close>: when the arguments string of the tool call is not empty and
  \<^verbatim>\<open>json.loads\<close> decodes it to a mapping that matches the source, \<open>from_tool_call\<close> on the
  tool class of the source gives an instance whose argument values are that mapping, and
  whose tool call is the one given.
\<close>

theorem round_trip:
  assumes cls: "tool_type src = Inr cls"
    and m: "matches src m"
    and reserved: "''tool_call'' \<notin> set (declared_names src)"
    and tc: "tc_function tc = Some f" "fn_arguments f = Some raw" "raw \<noteq> []"
    and raw: "loads raw = Inr (PyDict m)"
  shows "\<exists>tool. from_tool_call loads cls tc = Inr tool \<and> map_of (args tool) = map_of m
           \<and> tool_call tool = tc"
proof -
  from cls obtain s where s: "cls = tool_class s" "struct_declared s = declared src"
    by (rule tool_type_struct)
  let ?m' = "AList.update ''tool_call'' (PyToolCall tc) m"
  have names: "fname ` set (sfields s) = set (declared_names src)"
    using struct_names [OF s(2)] set_map [of fname "sfields s"] by simp
  have b: "build_model_json loads tc = Inr (PyDict ?m')"
    using tc raw by (rule build_model_json_dict)
  have same: "map_of ?m' k = map_of m k" if "k \<noteq> ''tool_call''" for k
    using that by (simp add: update_conv')
  have "validate_fields (sfields s) ?m' = validate_fields (sfields s) m"
  proof (rule validate_fields_cong)
    fix g assume "g \<in> set (sfields s)"
    then have "fname g \<in> set (declared_names src)" using names by blast
    with reserved have "fname g \<noteq> ''tool_call''" by auto
    then show "map_of ?m' (fname g) = map_of m (fname g)" by (rule same)
  qed
  moreover have "list_all (field_ok m) (sfields s)"
    using matches_field_ok [OF s(2) m] by (simp add: list_all_iff)
  then obtain a where a: "validate_fields (sfields s) m = Inr a"
    using validate_fields_ok_iff by blast
  ultimately have va: "validate_fields (sfields s) ?m' = Inr a" by simp
  have "map_of ?m' ''tool_call'' = Some (PyToolCall tc)" by (simp add: update_conv')
  with va have r: "from_tool_call loads cls tc = Inr \<lparr>args = a, tool_call = tc\<rparr>"
    by (simp add: from_tool_call_tool_class [OF b] s(1))
  have "map_of a k = map_of m k" for k
  proof (cases "k \<in> set (declared_names src)")
    case True
    then show ?thesis using validate_fields_args [OF a, of k] names by simp
  next
    case False
    with m have "k \<notin> fst ` set m" by (auto simp: matches_def list_all_iff)
    then have "map_of m k = None" by (simp add: map_of_eq_None_iff)
    with False show ?thesis using validate_fields_args [OF a, of k] names by simp
  qed
  then have "map_of a = map_of m" by (rule ext)
  with r show ?thesis by simp
qed

theorem round_trip_witness:
  "tool_type (FromFn lookup_fn) = Inr (tool_class lookup_struct)
   \<and> matches (FromFn lookup_fn) [(''city'', PyStr ''Tokyo'')]
   \<and> ''tool_call'' \<notin> set (declared_names (FromFn lookup_fn))
   \<and> loads_examples ''{\"city\": \"Tokyo\"}'' = Inr (PyDict [(''city'', PyStr ''Tokyo'')])
   \<and> (\<exists>tool. from_tool_call loads_examples (tool_class lookup_struct)
                (call_with (Some ''{\"city\": \"Tokyo\"}'')) = Inr tool
          \<and> map_of (args tool) = map_of [(''city'', PyStr ''Tokyo'')]
          \<and> tool_call tool = call_with (Some ''{\"city\": \"Tokyo\"}''))
   \<and> (\<exists>tool. from_tool_call loads_examples (tool_class lookup_struct)
                (call_with (Some ''{\"city\": \"Tokyo\"}'')) = Inr tool
          \<and> args tool = [(''city'', PyStr ''Tokyo'')])
   \<and> tool_type (FromBaseType str_type) = Inr (tool_class (base_type_to_struct str_type))
   \<and> matches (FromBaseType str_type) [(''value'', PyStr ''x'')]
   \<and> (\<exists>tool. from_tool_call loads_examples (tool_class (base_type_to_struct str_type))
                (call_with (Some ''{\"value\": \"x\"}'')) = Inr tool
          \<and> map_of (args tool) = map_of [(''value'', PyStr ''x'')])
   \<and> tool_type (FromModel tagged_struct) = Inr (tool_class tagged_struct)
   \<and> matches (FromModel tagged_struct)
         [(''tags'', PyList [PyStr ''a'']), (''inner'', PyDict [(''n'', PyInt 1)])]
   \<and> (\<exists>tool. from_tool_call loads_examples (tool_class tagged_struct)
                (call_with (Some ''{\"tags\": [\"a\"], \"inner\": {\"n\": 1}}'')) = Inr tool
          \<and> map_of (args tool) =
              map_of [(''tags'', PyList [PyStr ''a'']), (''inner'', PyDict [(''n'', PyInt 1)])])"
proof -
  have t: "tool_type (FromFn lookup_fn) = Inr (tool_class lookup_struct)"
    by (simp add: from_fn_lookup)
  have dec: "declared (FromFn lookup_fn) =
      [(''city'', Some (TPrim PString), None),
       (''units'', Some (TPrim PString), Some (PyStr ''metric''))]"
    by (simp add: lookup_fn_def)
  have n: "declared_names (FromFn lookup_fn) = [''city'', ''units'']"
    unfolding declared_names_def dec by simp
  have r: "required_names (FromFn lookup_fn) = [''city'']"
    unfolding required_names_def dec by simp
  have m: "matches (FromFn lookup_fn) [(''city'', PyStr ''Tokyo'')]"
    unfolding matches_def n r dec by simp
  have res: "''tool_call'' \<notin> set (declared_names (FromFn lookup_fn))"
    unfolding n by simp
  have l: "loads_examples ''{\"city\": \"Tokyo\"}'' = Inr (PyDict [(''city'', PyStr ''Tokyo'')])"
    by (simp add: loads_examples_def)
  have tb: "tool_type (FromBaseType str_type) = Inr (tool_class (base_type_to_struct str_type))"
    by (simp add: from_base_type_def convert_base_type_to_tool_def)
  have decb: "declared (FromBaseType str_type) = [(''value'', Some (TPrim PString), None)]"
    by (simp add: str_type_def)
  have nb: "declared_names (FromBaseType str_type) = [''value'']"
    unfolding declared_names_def decb by simp
  have rb: "required_names (FromBaseType str_type) = [''value'']"
    unfolding required_names_def decb by simp
  have mb: "matches (FromBaseType str_type) [(''value'', PyStr ''x'')]"
    unfolding matches_def nb rb decb by simp
  have resb: "''tool_call'' \<notin> set (declared_names (FromBaseType str_type))"
    unfolding nb by simp
  have lb: "loads_examples ''{\"value\": \"x\"}'' = Inr (PyDict [(''value'', PyStr ''x'')])"
    by (simp add: loads_examples_def)
  have e: "from_tool_call loads_examples (tool_class lookup_struct)
                (call_with (Some ''{\"city\": \"Tokyo\"}''))
        = Inr \<lparr>args = [(''city'', PyStr ''Tokyo'')],
               tool_call = call_with (Some ''{\"city\": \"Tokyo\"}'')\<rparr>"
    using build_model_json_call_with
        [of "''{\"city\": \"Tokyo\"}''" loads_examples "[(''city'', PyStr ''Tokyo'')]"] l
    by (simp add: from_tool_call_tool_class lookup_struct_def)
  have rt1: "\<exists>tool. from_tool_call loads_examples (tool_class lookup_struct)
                (call_with (Some ''{\"city\": \"Tokyo\"}'')) = Inr tool
          \<and> map_of (args tool) = map_of [(''city'', PyStr ''Tokyo'')]
          \<and> tool_call tool = call_with (Some ''{\"city\": \"Tokyo\"}'')"
    using round_trip
      [of "FromFn lookup_fn" "tool_class lookup_struct" "[(''city'', PyStr ''Tokyo'')]"
          "call_with (Some ''{\"city\": \"Tokyo\"}'')"
          "\<lparr>fn_arguments = Some ''{\"city\": \"Tokyo\"}'', fn_name = Some ''lookup''\<rparr>"
          "''{\"city\": \"Tokyo\"}''" loads_examples, OF t m res call_with_function _ _ l]
    by simp
  have rt2: "\<exists>tool. from_tool_call loads_examples (tool_class (base_type_to_struct str_type))
                (call_with (Some ''{\"value\": \"x\"}'')) = Inr tool
          \<and> map_of (args tool) = map_of [(''value'', PyStr ''x'')]
          \<and> tool_call tool = call_with (Some ''{\"value\": \"x\"}'')"
    using round_trip
      [of "FromBaseType str_type" "tool_class (base_type_to_struct str_type)"
          "[(''value'', PyStr ''x'')]"
          "call_with (Some ''{\"value\": \"x\"}'')"
          "\<lparr>fn_arguments = Some ''{\"value\": \"x\"}'', fn_name = Some ''lookup''\<rparr>"
          "''{\"value\": \"x\"}''" loads_examples, OF tb mb resb call_with_function _ _ lb]
    by simp
  from rt2 have rt2': "\<exists>tool. from_tool_call loads_examples (tool_class (base_type_to_struct str_type))
                (call_with (Some ''{\"value\": \"x\"}'')) = Inr tool
          \<and> map_of (args tool) = map_of [(''value'', PyStr ''x'')]"
    by blast
  from e have e': "\<exists>tool. from_tool_call loads_examples (tool_class lookup_struct)
                (call_with (Some ''{\"city\": \"Tokyo\"}'')) = Inr tool
          \<and> args tool = [(''city'', PyStr ''Tokyo'')]"
    by simp
  have tm: "tool_type (FromModel tagged_struct) = Inr (tool_class tagged_struct)"
    by (simp add: from_model_def convert_base_model_to_tool_def)
  have decm: "declared (FromModel tagged_struct) =
      [(''tags'', Some (TArray (TPrim PString)), None),
       (''inner'', Some (TStruct (Struct ''Inner'' [] [Field ''n'' (TPrim PInteger) None None])),
        None)]"
    by (simp add: tagged_struct_def)
  have nm: "declared_names (FromModel tagged_struct) = [''tags'', ''inner'']"
    unfolding declared_names_def decm by simp
  have rm: "required_names (FromModel tagged_struct) = [''tags'', ''inner'']"
    unfolding required_names_def decm by simp
  have mm: "matches (FromModel tagged_struct)
         [(''tags'', PyList [PyStr ''a'']), (''inner'', PyDict [(''n'', PyInt 1)])]"
    unfolding matches_def nm rm decm by simp
  have resm: "''tool_call'' \<notin> set (declared_names (FromModel tagged_struct))"
    unfolding nm by simp
  have lm: "loads_examples ''{\"tags\": [\"a\"], \"inner\": {\"n\": 1}}'' =
      Inr (PyDict [(''tags'', PyList [PyStr ''a'']), (''inner'', PyDict [(''n'', PyInt 1)])])"
    by (simp add: loads_examples_def)
  have rt3: "\<exists>tool. from_tool_call loads_examples (tool_class tagged_struct)
                (call_with (Some ''{\"tags\": [\"a\"], \"inner\": {\"n\": 1}}'')) = Inr tool
          \<and> map_of (args tool) =
              map_of [(''tags'', PyList [PyStr ''a'']), (''inner'', PyDict [(''n'', PyInt 1)])]
          \<and> tool_call tool = call_with (Some ''{\"tags\": [\"a\"], \"inner\": {\"n\": 1}}'')"
    using round_trip
      [of "FromModel tagged_struct" "tool_class tagged_struct"
          "[(''tags'', PyList [PyStr ''a'']), (''inner'', PyDict [(''n'', PyInt 1)])]"
          "call_with (Some ''{\"tags\": [\"a\"], \"inner\": {\"n\": 1}}'')"
          "\<lparr>fn_arguments = Some ''{\"tags\": [\"a\"], \"inner\": {\"n\": 1}}'',
            fn_name = Some ''lookup''\<rparr>"
          "''{\"tags\": [\"a\"], \"inner\": {\"n\": 1}}''" loads_examples,
       OF tm mm resm call_with_function _ _ lm]
    by simp
  from rt3 have rt3': "\<exists>tool. from_tool_call loads_examples (tool_class tagged_struct)
                (call_with (Some ''{\"tags\": [\"a\"], \"inner\": {\"n\": 1}}'')) = Inr tool
          \<and> map_of (args tool) =
              map_of [(''tags'', PyList [PyStr ''a'']), (''inner'', PyDict [(''n'', PyInt 1)])]"
    by blast
  show ?thesis
    by (intro conjI t m res l rt1 e' tb mb rt2' tm mm rt3')
qed

text \<open>
  C3 as stated, for every source, fails: the callable \<^verbatim>\<open>f(tool_call: str)\<close> declares a
  field under the reserved key, the mapping \<^verbatim>\<open>{"tool_call": "x"}\<close> matches it, and the
  instantiation is a validation error, because the value was replaced by the tool call.
\<close>

theorem round_trip_counterexample:
  "tool_type (FromFn collide_fn) = Inr (tool_class collide_struct)
   \<and> matches (FromFn collide_fn) [(''tool_call'', PyStr ''x'')]
   \<and> loads_examples ''{\"tool_call\": \"x\"}'' = Inr (PyDict [(''tool_call'', PyStr ''x'')])
   \<and> tc_function (call_with (Some ''{\"tool_call\": \"x\"}''))
        = Some \<lparr>fn_arguments = Some ''{\"tool_call\": \"x\"}'', fn_name = Some ''lookup''\<rparr>
   \<and> build_model_json loads_examples (call_with (Some ''{\"tool_call\": \"x\"}''))
        = Inr (PyDict [(''tool_call'', PyToolCall (call_with (Some ''{\"tool_call\": \"x\"}'')))])
   \<and> from_tool_call loads_examples (tool_class collide_struct)
        (call_with (Some ''{\"tool_call\": \"x\"}''))
        = Inl (ValidationError (WrongType ''tool_call''))"
proof -
  have dec: "declared (FromFn collide_fn) = [(''tool_call'', Some (TPrim PString), None)]"
    by (simp add: collide_fn_def)
  have n: "declared_names (FromFn collide_fn) = [''tool_call'']"
    unfolding declared_names_def dec by simp
  have r: "required_names (FromFn collide_fn) = [''tool_call'']"
    unfolding required_names_def dec by simp
  have m: "matches (FromFn collide_fn) [(''tool_call'', PyStr ''x'')]"
    unfolding matches_def n r dec by simp
  have l: "loads_examples ''{\"tool_call\": \"x\"}'' = Inr (PyDict [(''tool_call'', PyStr ''x'')])"
    by (simp add: loads_examples_def)
  have b: "build_model_json loads_examples (call_with (Some ''{\"tool_call\": \"x\"}''))
        = Inr (PyDict [(''tool_call'', PyToolCall (call_with (Some ''{\"tool_call\": \"x\"}'')))])"
    using build_model_json_call_with
        [of "''{\"tool_call\": \"x\"}''" loads_examples "[(''tool_call'', PyStr ''x'')]"] l
    by simp
  have "from_tool_call loads_examples (tool_class collide_struct)
        (call_with (Some ''{\"tool_call\": \"x\"}''))
        = Inl (ValidationError (WrongType ''tool_call''))"
    by (simp add: from_tool_call_tool_class [OF b] collide_struct_def)
  with m l b show ?thesis by (simp add: from_fn_collide call_with_function)
qed

text \<open>
  C4. The tool call is attached under the key \<^verbatim>\<open>tool_call\<close>, and every other key keeps
  its parsed value; so for every tool source that declares no field named \<^verbatim>\<open>tool_call\<close>
  the attachment changes the value of no declared field.
\<close>

theorem attachment_keeps_other_keys:
  assumes "load_model_json loads tc = Inr parsed"
    and "build_model_json loads tc = Inr attached"
  shows "py_get attached ''tool_call'' = Some (PyToolCall tc)
     \<and> (\<forall>k. k \<noteq> ''tool_call'' \<longrightarrow> py_get attached k = py_get parsed k)
     \<and> (''tool_call'' \<notin> set (declared_names src) \<longrightarrow>
          (\<forall>k \<in> set (declared_names src). py_get attached k = py_get parsed k))"
proof -
  have 1: "py_get attached ''tool_call'' = Some (PyToolCall tc)"
    using assms(2) by (rule build_model_json_attached)
  have 2: "py_get attached k = py_get parsed k" if "k \<noteq> ''tool_call''" for k
    using assms(2) assms(1) that by (rule build_model_json_other_keys)
  have 3: "\<forall>k \<in> set (declared_names src). py_get attached k = py_get parsed k"
    if r: "''tool_call'' \<notin> set (declared_names src)"
  proof
    fix k assume "k \<in> set (declared_names src)"
    with r have "k \<noteq> ''tool_call''" by auto
    then show "py_get attached k = py_get parsed k" by (rule 2)
  qed
  from 1 2 3 show ?thesis by blast
qed

theorem attachment_keeps_other_keys_witness:
  "load_model_json loads_examples (call_with (Some ''{\"city\": \"Tokyo\"}''))
     = Inr (PyDict [(''city'', PyStr ''Tokyo'')])
   \<and> build_model_json loads_examples (call_with (Some ''{\"city\": \"Tokyo\"}''))
     = Inr (PyDict [(''city'', PyStr ''Tokyo''),
                    (''tool_call'', PyToolCall (call_with (Some ''{\"city\": \"Tokyo\"}'')))])
   \<and> ''tool_call'' \<notin> set (declared_names (FromFn lookup_fn))
   \<and> declared_names (FromFn lookup_fn) = [''city'', ''units'']
   \<and> py_get (PyDict [(''city'', PyStr ''Tokyo''),
                    (''tool_call'', PyToolCall (call_with (Some ''{\"city\": \"Tokyo\"}'')))])
         ''city''
       = py_get (PyDict [(''city'', PyStr ''Tokyo'')]) ''city''
   \<and> py_get (PyDict [(''city'', PyStr ''Tokyo''),
                    (''tool_call'', PyToolCall (call_with (Some ''{\"city\": \"Tokyo\"}'')))])
         ''units''
       = py_get (PyDict [(''city'', PyStr ''Tokyo'')]) ''units''"
proof -
  have l: "loads_examples ''{\"city\": \"Tokyo\"}'' = Inr (PyDict [(''city'', PyStr ''Tokyo'')])"
    by (simp add: loads_examples_def)
  have p: "load_model_json loads_examples (call_with (Some ''{\"city\": \"Tokyo\"}''))
     = Inr (PyDict [(''city'', PyStr ''Tokyo'')])"
    using load_model_json_truthy [OF call_with_function, of "Some ''{\"city\": \"Tokyo\"}''"
        "''{\"city\": \"Tokyo\"}''" loads_examples] l by simp
  have b: "build_model_json loads_examples (call_with (Some ''{\"city\": \"Tokyo\"}''))
     = Inr (PyDict [(''city'', PyStr ''Tokyo''),
                    (''tool_call'', PyToolCall (call_with (Some ''{\"city\": \"Tokyo\"}'')))])"
    using build_model_json_call_with
        [of "''{\"city\": \"Tokyo\"}''" loads_examples "[(''city'', PyStr ''Tokyo'')]"] l
    by simp
  have n: "declared_names (FromFn lookup_fn) = [''city'', ''units'']"
    unfolding declared_names_def by (simp add: lookup_fn_def)
  have res: "''tool_call'' \<notin> set (declared_names (FromFn lookup_fn))"
    unfolding n by simp
  from attachment_keeps_other_keys [OF p b, of "FromFn lookup_fn"] res
  have a: "\<forall>k \<in> set (declared_names (FromFn lookup_fn)).
         py_get (PyDict [(''city'', PyStr ''Tokyo''),
                    (''tool_call'', PyToolCall (call_with (Some ''{\"city\": \"Tokyo\"}'')))]) k
         = py_get (PyDict [(''city'', PyStr ''Tokyo'')]) k"
    by blast
  from a have c: "py_get (PyDict [(''city'', PyStr ''Tokyo''),
                    (''tool_call'', PyToolCall (call_with (Some ''{\"city\": \"Tokyo\"}'')))])
         ''city''
       = py_get (PyDict [(''city'', PyStr ''Tokyo'')]) ''city''"
    unfolding n by simp
  from a have u: "py_get (PyDict [(''city'', PyStr ''Tokyo''),
                    (''tool_call'', PyToolCall (call_with (Some ''{\"city\": \"Tokyo\"}'')))])
         ''units''
       = py_get (PyDict [(''city'', PyStr ''Tokyo'')]) ''units''"
    unfolding n by simp
  show ?thesis by (intro conjI p b res n c u)
qed

text \<open>
  C4 as stated, for every tool definition, fails: the callable \<^verbatim>\<open>f(tool_call: str)\<close> is
  accepted as a tool, its declared field \<^verbatim>\<open>tool_call\<close> is parsed as \<^verbatim>\<open>"x"\<close>, and the
  attachment replaces that value by the tool call.
\<close>

theorem attachment_counterexample:
  "from_fn collide_fn = Inr (tool_class collide_struct)
   \<and> ''tool_call'' \<in> set (declared_names (FromFn collide_fn))
   \<and> load_model_json loads_examples (call_with (Some ''{\"tool_call\": \"x\"}''))
       = Inr (PyDict [(''tool_call'', PyStr ''x'')])
   \<and> build_model_json loads_examples (call_with (Some ''{\"tool_call\": \"x\"}''))
       = Inr (PyDict [(''tool_call'', PyToolCall (call_with (Some ''{\"tool_call\": \"x\"}'')))])
   \<and> py_get (PyDict [(''tool_call'', PyToolCall (call_with (Some ''{\"tool_call\": \"x\"}'')))])
         ''tool_call''
       \<noteq> py_get (PyDict [(''tool_call'', PyStr ''x'')]) ''tool_call''"
proof -
  have l: "loads_examples ''{\"tool_call\": \"x\"}'' = Inr (PyDict [(''tool_call'', PyStr ''x'')])"
    by (simp add: loads_examples_def)
  have p: "load_model_json loads_examples (call_with (Some ''{\"tool_call\": \"x\"}''))
     = Inr (PyDict [(''tool_call'', PyStr ''x'')])"
    using load_model_json_truthy [OF call_with_function, of "Some ''{\"tool_call\": \"x\"}''"
        "''{\"tool_call\": \"x\"}''" loads_examples] l by simp
  have b: "build_model_json loads_examples (call_with (Some ''{\"tool_call\": \"x\"}''))
       = Inr (PyDict [(''tool_call'', PyToolCall (call_with (Some ''{\"tool_call\": \"x\"}'')))])"
    using build_model_json_call_with
        [of "''{\"tool_call\": \"x\"}''" loads_examples "[(''tool_call'', PyStr ''x'')]"] l
    by simp
  have n: "''tool_call'' \<in> set (declared_names (FromFn collide_fn))"
    unfolding declared_names_def by (simp add: collide_fn_def)
  show ?thesis using p b n by (simp add: from_fn_collide)
qed

text \<open>
  C5. For every tool source with a field \<open>x\<close> that has no default, a tool call whose
  arguments string is \<^verbatim>\<open>{}\<close>, decoded to the empty mapping, makes \<open>from_tool_call\<close> fail
  with a validation error: not the parse failure and not an instance.
\<close>

theorem missing_required_field_rejected:
  assumes cls: "tool_type src = Inr cls"
    and req: "x \<in> set (required_names src)"
    and tc: "tc_function tc = Some f" "fn_arguments f = Some ''{}''"
    and raw: "loads ''{}'' = Inr (PyDict [])"
  shows "\<exists>e. from_tool_call loads cls tc = Inl (ValidationError e)"
proof -
  from cls obtain s where s: "cls = tool_class s" "struct_declared s = declared src"
    by (rule tool_type_struct)
  let ?m' = "[(''tool_call'', PyToolCall tc)]"
  have b: "build_model_json loads tc = Inr (PyDict ?m')"
    using build_model_json_dict [of tc f "''{}''" loads "[]"] tc raw by simp
  from req have "x \<in> set (map fname (filter (\<lambda>f. fdefault f = None) (sfields s)))"
    using struct_required [OF s(2)] by simp
  then obtain g where g: "g \<in> set (sfields s)" "fdefault g = None" "fname g = x"
    by auto
  have "\<not> field_ok ?m' g"
    using g(2) by (simp add: field_ok_def check_type_ToolCall)
  with g(1) have "\<not> list_all (field_ok ?m') (sfields s)" by (auto simp: list_all_iff)
  then have "\<not> (\<exists>a. validate_fields (sfields s) ?m' = Inr a)"
    by (simp add: validate_fields_ok_iff)
  then obtain e where "validate_fields (sfields s) ?m' = Inl e"
    by (cases "validate_fields (sfields s) ?m'") auto
  then show ?thesis by (simp add: from_tool_call_tool_class [OF b] s(1))
qed

theorem missing_required_field_rejected_witness:
  "tool_type (FromFn lookup_fn) = Inr (tool_class lookup_struct)
   \<and> ''city'' \<in> set (required_names (FromFn lookup_fn))
   \<and> loads_examples ''{}'' = Inr (PyDict [])
   \<and> (\<exists>e. from_tool_call loads_examples (tool_class lookup_struct) (call_with (Some ''{}''))
            = Inl (ValidationError e))
   \<and> from_tool_call loads_examples (tool_class lookup_struct) (call_with (Some ''{}''))
        = Inl (ValidationError (MissingField ''city''))"
proof -
  have t: "tool_type (FromFn lookup_fn) = Inr (tool_class lookup_struct)"
    by (simp add: from_fn_lookup)
  have r: "''city'' \<in> set (required_names (FromFn lookup_fn))"
    unfolding required_names_def by (simp add: lookup_fn_def)
  have l: "loads_examples ''{}'' = Inr (PyDict [])"
    by (simp add: loads_examples_def)
  have x: "\<exists>e. from_tool_call loads_examples (tool_class lookup_struct) (call_with (Some ''{}''))
            = Inl (ValidationError e)"
    using missing_required_field_rejected
      [of "FromFn lookup_fn" "tool_class lookup_struct" "''city''" "call_with (Some ''{}'')"
          "\<lparr>fn_arguments = Some ''{}'', fn_name = Some ''lookup''\<rparr>" loads_examples,
       OF t r call_with_function _ l]
    by simp
  have e: "from_tool_call loads_examples (tool_class lookup_struct) (call_with (Some ''{}''))
        = Inl (ValidationError (MissingField ''city''))"
    using build_model_json_call_with [of "''{}''" loads_examples "[]"] l
    by (simp add: from_tool_call_tool_class lookup_struct_def)
  show ?thesis by (intro conjI t r l x e)
qed

text \<open>
  C6. Two calls of \<open>tool_schema\<close> on the same class, one after the other on a store. Each
  call returns a new envelope object and only extends the store; after the second call the
  first envelope still stands for what it stood for; and both envelopes stand for one and the
  same value, the dict with the keys \<^verbatim>\<open>type\<close> and \<^verbatim>\<open>function\<close> in this order that holds
  \<^verbatim>\<open>"function"\<close> and the base schema. This holds for the tool class of every structured type,
  from every store, and for every class whose base builder, whatever the store, only
  extends it and returns an object that stands for the same schema \<open>S\<close>. The witness is the
  class of \<^verbatim>\<open>lookup(city: str, units: str = "metric")\<close> in a store of three objects: the
  envelopes are the objects 4 and 6, and both stand for the schema of the spec's scenario.
\<close>

theorem tool_schema_twice:
  "(\<exists>e1 h1 e2 h2. tool_schema_st (tool_class_st s) h = (e1, h1)
        \<and> tool_schema_st (tool_class_st s) h1 = (e2, h2)
        \<and> e1 \<noteq> e2 \<and> prefix h h1 \<and> prefix h1 h2
        \<and> obj_value h1 e1 = Some (tool_schema (tool_class s))
        \<and> obj_value h2 e1 = Some (tool_schema (tool_class s))
        \<and> obj_value h2 e2 = Some (tool_schema (tool_class s)))
   \<and> ((\<forall>h. \<exists>fn h' ob. super_tool_schema_st cls h = (fn, h') \<and> prefix h h'
                  \<and> obj_at h' fn = Some ob \<and> flat_value ob = Some S) \<longrightarrow>
       (\<exists>e1 h1 e2 h2. tool_schema_st cls h = (e1, h1) \<and> tool_schema_st cls h1 = (e2, h2)
          \<and> e1 \<noteq> e2 \<and> prefix h h1 \<and> prefix h1 h2
          \<and> obj_value h1 e1 = Some (PyDict [(''type'', PyStr ''function''), (''function'', S)])
          \<and> obj_value h2 e1 = Some (PyDict [(''type'', PyStr ''function''), (''function'', S)])
          \<and> obj_value h2 e2 = Some (PyDict [(''type'', PyStr ''function''), (''function'', S)])))"
proof (intro conjI impI)
  have "\<forall>h. \<exists>fn h' ob. super_tool_schema_st (tool_class_st s) h = (fn, h') \<and> prefix h h'
       \<and> obj_at h' fn = Some ob \<and> flat_value ob = Some (base_tool_schema s)"
    using base_tool_schema_st_returns by blast
  from tool_schema_st_twice [OF this, of h]
  show "\<exists>e1 h1 e2 h2. tool_schema_st (tool_class_st s) h = (e1, h1)
        \<and> tool_schema_st (tool_class_st s) h1 = (e2, h2)
        \<and> e1 \<noteq> e2 \<and> prefix h h1 \<and> prefix h1 h2
        \<and> obj_value h1 e1 = Some (tool_schema (tool_class s))
        \<and> obj_value h2 e1 = Some (tool_schema (tool_class s))
        \<and> obj_value h2 e2 = Some (tool_schema (tool_class s))"
    by (simp add: tool_schema_def tool_class_def)
next
  assume "\<forall>h. \<exists>fn h' ob. super_tool_schema_st cls h = (fn, h') \<and> prefix h h'
                  \<and> obj_at h' fn = Some ob \<and> flat_value ob = Some S"
  then show "\<exists>e1 h1 e2 h2. tool_schema_st cls h = (e1, h1) \<and> tool_schema_st cls h1 = (e2, h2)
          \<and> e1 \<noteq> e2 \<and> prefix h h1 \<and> prefix h1 h2
          \<and> obj_value h1 e1 = Some (PyDict [(''type'', PyStr ''function''), (''function'', S)])
          \<and> obj_value h2 e1 = Some (PyDict [(''type'', PyStr ''function''), (''function'', S)])
          \<and> obj_value h2 e2 = Some (PyDict [(''type'', PyStr ''function''), (''function'', S)])"
    by (rule tool_schema_st_twice)
qed

theorem tool_schema_twice_witness:
  "tool_schema_st (tool_class_st lookup_struct) store_example
     = (4, store_example @
           [new_object (base_tool_schema lookup_struct),
            DictObj [(''type'', Val (PyStr ''function'')), (''function'', Ref 3)]])
   \<and> tool_schema_st (tool_class_st lookup_struct)
        (store_example @
           [new_object (base_tool_schema lookup_struct),
            DictObj [(''type'', Val (PyStr ''function'')), (''function'', Ref 3)]])
     = (6, store_example @
           [new_object (base_tool_schema lookup_struct),
            DictObj [(''type'', Val (PyStr ''function'')), (''function'', Ref 3)],
            new_object (base_tool_schema lookup_struct),
            DictObj [(''type'', Val (PyStr ''function'')), (''function'', Ref 5)]])
   \<and> obj_value (store_example @
           [new_object (base_tool_schema lookup_struct),
            DictObj [(''type'', Val (PyStr ''function'')), (''function'', Ref 3)],
            new_object (base_tool_schema lookup_struct),
            DictObj [(''type'', Val (PyStr ''function'')), (''function'', Ref 5)]]) 4
     = Some (tool_schema (tool_class lookup_struct))
   \<and> obj_value (store_example @
           [new_object (base_tool_schema lookup_struct),
            DictObj [(''type'', Val (PyStr ''function'')), (''function'', Ref 3)],
            new_object (base_tool_schema lookup_struct),
            DictObj [(''type'', Val (PyStr ''function'')), (''function'', Ref 5)]]) 6
     = Some (tool_schema (tool_class lookup_struct))
   \<and> tool_schema (tool_class lookup_struct) =
       PyDict [(''type'', PyStr ''function''),
               (''function'',
                PyDict [(''name'', PyStr ''lookup''),
                        (''description'', PyStr ''Looks up the weather.''),
                        (''parameters'',
                         PyDict [(''type'', PyStr ''object''),
                                 (''properties'',
                                  PyDict [(''city'', PyDict [(''type'', PyStr ''string''),
                                                             (''description'', PyStr ''the city'')]),
                                          (''units'', PyDict [(''type'', PyStr ''string''),
                                                              (''description'', PyStr ''the units'')])]),
                                 (''required'', PyList [PyStr ''city''])])])]"
proof -
  let ?h1 = "store_example @
           [new_object (base_tool_schema lookup_struct),
            DictObj [(''type'', Val (PyStr ''function'')), (''function'', Ref 3)]]"
  let ?h2 = "store_example @
           [new_object (base_tool_schema lookup_struct),
            DictObj [(''type'', Val (PyStr ''function'')), (''function'', Ref 3)],
            new_object (base_tool_schema lookup_struct),
            DictObj [(''type'', Val (PyStr ''function'')), (''function'', Ref 5)]]"
  have 1: "tool_schema_st (tool_class_st lookup_struct) store_example = (4, ?h1)"
    by (simp add: tool_schema_st_eq) (simp add: store_example_def)
  have 2: "tool_schema_st (tool_class_st lookup_struct) ?h1 = (6, ?h2)"
    by (simp add: tool_schema_st_eq) (simp add: store_example_def)
  from tool_schema_twice [of lookup_struct store_example "tool_class_st lookup_struct"
      "base_tool_schema lookup_struct"]
  have "\<exists>e1 h1 e2 h2. tool_schema_st (tool_class_st lookup_struct) store_example = (e1, h1)
        \<and> tool_schema_st (tool_class_st lookup_struct) h1 = (e2, h2)
        \<and> e1 \<noteq> e2 \<and> prefix store_example h1 \<and> prefix h1 h2
        \<and> obj_value h1 e1 = Some (tool_schema (tool_class lookup_struct))
        \<and> obj_value h2 e1 = Some (tool_schema (tool_class lookup_struct))
        \<and> obj_value h2 e2 = Some (tool_schema (tool_class lookup_struct))"
    by blast
  with 1 2 have v: "obj_value ?h2 4 = Some (tool_schema (tool_class lookup_struct))"
      "obj_value ?h2 6 = Some (tool_schema (tool_class lookup_struct))"
    by auto
  have c: "tool_schema (tool_class lookup_struct) =
       PyDict [(''type'', PyStr ''function''),
               (''function'',
                PyDict [(''name'', PyStr ''lookup''),
                        (''description'', PyStr ''Looks up the weather.''),
                        (''parameters'',
                         PyDict [(''type'', PyStr ''object''),
                                 (''properties'',
                                  PyDict [(''city'', PyDict [(''type'', PyStr ''string''),
                                                             (''description'', PyStr ''the city'')]),
                                          (''units'', PyDict [(''type'', PyStr ''string''),
                                                              (''description'', PyStr ''the units'')])]),
                                 (''required'', PyList [PyStr ''city''])])])]"
    by (simp add: tool_schema_def tool_class_def base_tool_schema_def lookup_struct_def)
  from 1 2 v c show ?thesis by simp
qed

text \<open>
  C7. Every structured type and every primitive-wrapping type, and every callable all of
  whose parameters are annotated, has a tool class; the required list of its rendered schema
  is the list of the names of the fields without a default, in declaration order; the
  properties are the declared fields; and when the declared names are distinct, no field with
  a default is in the required list and a field of primitive type is rendered with that type.
  A callable with a parameter that lacks an annotation has no tool class: the conversion
  fails with \<^verbatim>\<open>SchemaBuildError\<close> naming one of its parameters. The witness takes one source
  of each kind: the callable \<^verbatim>\<open>lookup(city: str, units: str = "metric")\<close>, where required is
  \<^verbatim>\<open>["city"]\<close> and \<^verbatim>\<open>city\<close> and \<^verbatim>\<open>units\<close> are string properties; the structured types
  \<^verbatim>\<open>Tagged\<close>, where required is \<^verbatim>\<open>["tags", "inner"]\<close>, and \<^verbatim>\<open>g\<close>, whose one field has a
  default and where required is empty; the primitive-wrapping type for a string, where
  required is \<^verbatim>\<open>["value"]\<close>; and the callable \<^verbatim>\<open>h(city: str, x)\<close>, which is refused.
\<close>

theorem required_field_fidelity:
  "(annotated src \<longrightarrow>
      (\<exists>cls. tool_type src = Inr cls
         \<and> schema_required (tool_schema cls) = Some (PyList (map PyStr (required_names src)))
         \<and> schema_property_names (tool_schema cls) = declared_names src
         \<and> (distinct (declared_names src) \<longrightarrow>
              (\<forall>n \<in> set (optional_names src). n \<notin> set (required_names src))
              \<and> (\<forall>(n, t, dflt) \<in> set (declared src). \<forall>p. t = Some (TPrim p) \<longrightarrow>
                    schema_property_type (tool_schema cls) n = Some (PyStr (prim_name p))))))
   \<and> annotated (FromModel model)
   \<and> annotated (FromBaseType b)
   \<and> (annotated (FromFn fn) \<longleftrightarrow> list_all (\<lambda>p. annotation p \<noteq> None) (c_params fn))
   \<and> (\<not> annotated src \<longrightarrow>
        (\<exists>n. tool_type src = Inl (SchemaBuildError n) \<and> n \<in> set (declared_names src)))
   \<and> (tool_type src = Inr cls \<longrightarrow>
        schema_required (tool_schema cls) = Some (PyList (map PyStr (required_names src)))
        \<and> schema_property_names (tool_schema cls) = declared_names src
        \<and> (distinct (declared_names src) \<longrightarrow>
             (\<forall>n \<in> set (optional_names src). n \<notin> set (required_names src))
             \<and> (\<forall>(n, t, dflt) \<in> set (declared src). \<forall>p. t = Some (TPrim p) \<longrightarrow>
                   schema_property_type (tool_schema cls) n = Some (PyStr (prim_name p)))))"
proof (intro conjI impI)
  assume "annotated src"
  from tool_type_annotated [OF this] obtain c where c: "tool_type src = Inr c" by blast
  from fidelity_of_class [OF c] c
  show "\<exists>cls. tool_type src = Inr cls
         \<and> schema_required (tool_schema cls) = Some (PyList (map PyStr (required_names src)))
         \<and> schema_property_names (tool_schema cls) = declared_names src
         \<and> (distinct (declared_names src) \<longrightarrow>
              (\<forall>n \<in> set (optional_names src). n \<notin> set (required_names src))
              \<and> (\<forall>(n, t, dflt) \<in> set (declared src). \<forall>p. t = Some (TPrim p) \<longrightarrow>
                    schema_property_type (tool_schema cls) n = Some (PyStr (prim_name p))))"
    by blast
next
  show "annotated (FromModel model)" by (rule annotated_others)
next
  show "annotated (FromBaseType b)" by (rule annotated_others)
next
  show "annotated (FromFn fn) \<longleftrightarrow> list_all (\<lambda>p. annotation p \<noteq> None) (c_params fn)"
    by (rule annotated_FromFn)
next
  assume "\<not> annotated src"
  then show "\<exists>n. tool_type src = Inl (SchemaBuildError n) \<and> n \<in> set (declared_names src)"
    by (rule tool_type_unannotated)
next
  assume c: "tool_type src = Inr cls"
  from fidelity_of_class [OF c]
  show "schema_required (tool_schema cls) = Some (PyList (map PyStr (required_names src)))"
    by blast
next
  assume c: "tool_type src = Inr cls"
  from fidelity_of_class [OF c]
  show "schema_property_names (tool_schema cls) = declared_names src"
    by blast
next
  fix n
  assume c: "tool_type src = Inr cls" and d: "distinct (declared_names src)"
  from fidelity_of_class [OF c] d
  show "\<forall>n \<in> set (optional_names src). n \<notin> set (required_names src)"
    by blast
next
  assume c: "tool_type src = Inr cls" and d: "distinct (declared_names src)"
  from fidelity_of_class [OF c] d
  show "\<forall>(n, t, dflt) \<in> set (declared src). \<forall>p. t = Some (TPrim p) \<longrightarrow>
                   schema_property_type (tool_schema cls) n = Some (PyStr (prim_name p))"
    by blast
qed


theorem required_field_fidelity_witness:
  "annotated (FromFn lookup_fn)
   \<and> tool_type (FromFn lookup_fn) = Inr (tool_class lookup_struct)
   \<and> distinct (declared_names (FromFn lookup_fn))
   \<and> schema_required (tool_schema (tool_class lookup_struct)) = Some (PyList [PyStr ''city''])
   \<and> schema_property_names (tool_schema (tool_class lookup_struct)) = [''city'', ''units'']
   \<and> schema_property_type (tool_schema (tool_class lookup_struct)) ''city'' = Some (PyStr ''string'')
   \<and> schema_property_type (tool_schema (tool_class lookup_struct)) ''units'' = Some (PyStr ''string'')
   \<and> tool_type (FromModel tagged_struct) = Inr (tool_class tagged_struct)
   \<and> schema_required (tool_schema (tool_class tagged_struct))
        = Some (PyList [PyStr ''tags'', PyStr ''inner''])
   \<and> schema_property_names (tool_schema (tool_class tagged_struct)) = [''tags'', ''inner'']
   \<and> tool_type (FromModel collide_default_struct) = Inr (tool_class collide_default_struct)
   \<and> schema_required (tool_schema (tool_class collide_default_struct)) = Some (PyList [])
   \<and> tool_type (FromBaseType str_type) = Inr (tool_class (base_type_to_struct str_type))
   \<and> schema_required (tool_schema (tool_class (base_type_to_struct str_type)))
        = Some (PyList [PyStr ''value''])
   \<and> schema_property_names (tool_schema (tool_class (base_type_to_struct str_type))) = [''value'']
   \<and> schema_property_type (tool_schema (tool_class (base_type_to_struct str_type))) ''value''
        = Some (PyStr ''string'')
   \<and> \<not> annotated (FromFn untyped_fn)
   \<and> tool_type (FromFn untyped_fn) = Inl (SchemaBuildError ''x'')"
proof -
  have t: "tool_type (FromFn lookup_fn) = Inr (tool_class lookup_struct)"
    by (simp add: from_fn_lookup)
  have dec: "declared (FromFn lookup_fn) =
      [(''city'', Some (TPrim PString), None), (''units'', Some (TPrim PString), Some (PyStr ''metric''))]"
    by (simp add: lookup_fn_def)
  have r: "required_names (FromFn lookup_fn) = [''city'']"
    unfolding required_names_def dec by simp
  have n: "declared_names (FromFn lookup_fn) = [''city'', ''units'']"
    unfolding declared_names_def dec by simp
  have d: "distinct (declared_names (FromFn lookup_fn))"
    unfolding n by simp
  have a: "annotated (FromFn lookup_fn)"
    unfolding annotated_def dec by simp
  have fn: "schema_required (tool_schema (tool_class lookup_struct)) = Some (PyList [PyStr ''city''])
   \<and> schema_property_names (tool_schema (tool_class lookup_struct)) = [''city'', ''units'']
   \<and> schema_property_type (tool_schema (tool_class lookup_struct)) ''city'' = Some (PyStr ''string'')
   \<and> schema_property_type (tool_schema (tool_class lookup_struct)) ''units'' = Some (PyStr ''string'')"
    using required_field_fidelity [of "FromFn lookup_fn" tagged_struct str_type lookup_fn
        "tool_class lookup_struct"] t d a
    unfolding r n dec by simp
  have tm: "tool_type (FromModel tagged_struct) = Inr (tool_class tagged_struct)"
    by (simp add: from_model_def convert_base_model_to_tool_def)
  have decm: "declared (FromModel tagged_struct) =
      [(''tags'', Some (TArray (TPrim PString)), None),
       (''inner'', Some (TStruct (Struct ''Inner'' [] [Field ''n'' (TPrim PInteger) None None])), None)]"
    by (simp add: tagged_struct_def)
  have rm: "required_names (FromModel tagged_struct) = [''tags'', ''inner'']"
    unfolding required_names_def decm by simp
  have nm: "declared_names (FromModel tagged_struct) = [''tags'', ''inner'']"
    unfolding declared_names_def decm by simp
  have model: "schema_required (tool_schema (tool_class tagged_struct))
        = Some (PyList [PyStr ''tags'', PyStr ''inner''])
     \<and> schema_property_names (tool_schema (tool_class tagged_struct)) = [''tags'', ''inner'']"
    using required_field_fidelity [of "FromModel tagged_struct" tagged_struct str_type lookup_fn
        "tool_class tagged_struct"] tm
    unfolding rm nm by simp
  have tc: "tool_type (FromModel collide_default_struct) = Inr (tool_class collide_default_struct)"
    by (simp add: from_model_def convert_base_model_to_tool_def)
  have rc: "required_names (FromModel collide_default_struct) = []"
    by (simp add: required_names_def collide_default_struct_def)
  have model2: "schema_required (tool_schema (tool_class collide_default_struct)) = Some (PyList [])"
    using required_field_fidelity [of "FromModel collide_default_struct" tagged_struct str_type
        lookup_fn "tool_class collide_default_struct"] tc
    unfolding rc by simp
  have tb: "tool_type (FromBaseType str_type) = Inr (tool_class (base_type_to_struct str_type))"
    by (simp add: from_base_type_def convert_base_type_to_tool_def)
  have decb: "declared (FromBaseType str_type) = [(''value'', Some (TPrim PString), None)]"
    by (simp add: str_type_def)
  have rb: "required_names (FromBaseType str_type) = [''value'']"
    unfolding required_names_def decb by simp
  have nb: "declared_names (FromBaseType str_type) = [''value'']"
    unfolding declared_names_def decb by simp
  have base: "schema_required (tool_schema (tool_class (base_type_to_struct str_type)))
        = Some (PyList [PyStr ''value''])
     \<and> schema_property_names (tool_schema (tool_class (base_type_to_struct str_type))) = [''value'']
     \<and> schema_property_type (tool_schema (tool_class (base_type_to_struct str_type))) ''value''
        = Some (PyStr ''string'')"
    using required_field_fidelity [of "FromBaseType str_type" tagged_struct str_type lookup_fn
        "tool_class (base_type_to_struct str_type)"] tb
    unfolding rb nb decb by simp
  have decu: "declared (FromFn untyped_fn) =
      [(''city'', Some (TPrim PString), None), (''x'', None, None)]"
    by (simp add: untyped_fn_def)
  have u: "\<not> annotated (FromFn untyped_fn)"
    unfolding annotated_def decu by simp
  have tu: "tool_type (FromFn untyped_fn) = Inl (SchemaBuildError ''x'')"
    by (simp add: from_fn_def convert_function_to_tool_def function_to_struct_def untyped_fn_def)
  from a t d fn tm model tc model2 tb base u tu show ?thesis by simp
qed

text \<open>
  C8. \<open>from_tool_call\<close> on a store, with the tool call passed by its address. For the tool
  class of every structured type: the store is only extended, so no object that existed
  before the call is changed, and the tool call in particular is what it was; the outcome is
  that of the function \<open>from_tool_call\<close> on the tool call, so it depends on nothing else in
  the store; and the instance is a new object whose \<^verbatim>\<open>tool_call\<close> attribute is a reference
  to the very object that was passed. The same is stated for lines 102 to 109 alone, which
  are the lines of the method that update an object: the object they update is new. Two
  runs on equal tool calls, in two stores and at two addresses, end in the same exception or
  in instances with the same given arguments. For every class whose \<^verbatim>\<open>model_validate\<close> only
  extends the store, \<open>from_tool_call\<close> only extends it. Last, \<open>tool_schema\<close> only extends
  the store, and the object it returns stands for the value of \<open>tool_schema\<close>. The witness
  runs the spec's scenario in a store of three objects and in a store of one, and a tool
  call with malformed arguments.
\<close>

theorem from_tool_call_no_side_effects:
  "(obj_at h a = Some (ToolCallObj tc) \<longrightarrow>
      (\<exists>r h'. from_tool_call_st loads (tool_class_st s) a h = (r, h')
         \<and> prefix h h'
         \<and> obj_at h' a = Some (ToolCallObj tc)
         \<and> (case from_tool_call loads (tool_class s) tc of
              Inl e \<Rightarrow> r = Inl (Raised e)
            | Inr tool \<Rightarrow>
                (\<exists>t. r = Inr t \<and> length h \<le> t
                   \<and> obj_at h' t = Some (ToolObj (args tool) (Ref a))))))
   \<and> (obj_at h a = Some (ToolCallObj tc) \<longrightarrow>
      (\<exists>r h1. build_model_json_st loads a h = (r, h1)
         \<and> prefix h h1
         \<and> (case build_model_json loads tc of
              Inl e \<Rightarrow> r = Inl (Raised e)
            | Inr v \<Rightarrow>
                (\<exists>d. r = Inr d \<and> length h \<le> d \<and> obj_value h1 d = Some v
                   \<and> obj_entry h1 d ''tool_call'' = Some (Ref a)))))
   \<and> (obj_at h a = Some (ToolCallObj tc) \<and> obj_at g b = Some (ToolCallObj tc) \<longrightarrow>
      (\<exists>r h' q g'. from_tool_call_st loads (tool_class_st s) a h = (r, h')
         \<and> from_tool_call_st loads (tool_class_st s) b g = (q, g')
         \<and> (case r of
              Inl e \<Rightarrow> q = Inl e
            | Inr t \<Rightarrow>
                (\<exists>u given. q = Inr u \<and> obj_at h' t = Some (ToolObj given (Ref a))
                   \<and> obj_at g' u = Some (ToolObj given (Ref b))))))
   \<and> ((\<forall>d h1. prefix h1 (snd (model_validate_st cls d h1))) \<longrightarrow>
        prefix h (snd (from_tool_call_st loads cls a h)))
   \<and> (\<exists>e h'. tool_schema_st (tool_class_st s) h = (e, h') \<and> prefix h h' \<and> length h \<le> e
         \<and> obj_value h' e = Some (tool_schema (tool_class s)))"
proof (intro conjI impI)
  assume a: "obj_at h a = Some (ToolCallObj tc)"
  from from_tool_call_st_refines [OF a, of loads s]
  obtain r h' where r: "from_tool_call_st loads (tool_class_st s) a h = (r, h')" "prefix h h'"
     "case from_tool_call loads (tool_class s) tc of
           Inl e \<Rightarrow> r = Inl (Raised e)
         | Inr tool \<Rightarrow>
             (\<exists>t. r = Inr t \<and> length h \<le> t
                \<and> obj_at h' t = Some (ToolObj (args tool) (Ref a)))"
    by blast
  from obj_at_prefix [OF r(2) a] r
  show "\<exists>r h'. from_tool_call_st loads (tool_class_st s) a h = (r, h')
         \<and> prefix h h'
         \<and> obj_at h' a = Some (ToolCallObj tc)
         \<and> (case from_tool_call loads (tool_class s) tc of
              Inl e \<Rightarrow> r = Inl (Raised e)
            | Inr tool \<Rightarrow>
                (\<exists>t. r = Inr t \<and> length h \<le> t
                   \<and> obj_at h' t = Some (ToolObj (args tool) (Ref a))))"
    by blast
next
  assume a: "obj_at h a = Some (ToolCallObj tc)"
  then show "\<exists>r h1. build_model_json_st loads a h = (r, h1)
         \<and> prefix h h1
         \<and> (case build_model_json loads tc of
              Inl e \<Rightarrow> r = Inl (Raised e)
            | Inr v \<Rightarrow>
                (\<exists>d. r = Inr d \<and> length h \<le> d \<and> obj_value h1 d = Some v
                   \<and> obj_entry h1 d ''tool_call'' = Some (Ref a)))"
    by (rule build_model_json_st_refines)
next
  assume ab: "obj_at h a = Some (ToolCallObj tc) \<and> obj_at g b = Some (ToolCallObj tc)"
  from ab from_tool_call_st_refines [of h a tc loads s]
  obtain r h' where r: "from_tool_call_st loads (tool_class_st s) a h = (r, h')"
     "case from_tool_call loads (tool_class s) tc of
           Inl e \<Rightarrow> r = Inl (Raised e)
         | Inr tool \<Rightarrow>
             (\<exists>t. r = Inr t \<and> length h \<le> t
                \<and> obj_at h' t = Some (ToolObj (args tool) (Ref a)))"
    by blast
  from ab from_tool_call_st_refines [of g b tc loads s]
  obtain q g' where q: "from_tool_call_st loads (tool_class_st s) b g = (q, g')"
     "case from_tool_call loads (tool_class s) tc of
           Inl e \<Rightarrow> q = Inl (Raised e)
         | Inr tool \<Rightarrow>
             (\<exists>t. q = Inr t \<and> length g \<le> t
                \<and> obj_at g' t = Some (ToolObj (args tool) (Ref b)))"
    by blast
  have "case r of
              Inl e \<Rightarrow> q = Inl e
            | Inr t \<Rightarrow>
                (\<exists>u given. q = Inr u \<and> obj_at h' t = Some (ToolObj given (Ref a))
                   \<and> obj_at g' u = Some (ToolObj given (Ref b)))"
    using r(2) q(2) by (cases "from_tool_call loads (tool_class s) tc") auto
  with r(1) q(1)
  show "\<exists>r h' q g'. from_tool_call_st loads (tool_class_st s) a h = (r, h')
         \<and> from_tool_call_st loads (tool_class_st s) b g = (q, g')
         \<and> (case r of
              Inl e \<Rightarrow> q = Inl e
            | Inr t \<Rightarrow>
                (\<exists>u given. q = Inr u \<and> obj_at h' t = Some (ToolObj given (Ref a))
                   \<and> obj_at g' u = Some (ToolObj given (Ref b))))"
    by blast
next
  assume "\<forall>d h1. prefix h1 (snd (model_validate_st cls d h1))"
  then show "prefix h (snd (from_tool_call_st loads cls a h))"
    by (rule from_tool_call_st_prefix)
next
  have "obj_value (h @ [new_object (base_tool_schema s),
           DictObj [(''type'', Val (PyStr ''function'')), (''function'', Ref (length h))]])
      (Suc (length h)) = Some (tool_schema (tool_class s))"
    using tool_schema_st_value [of h s "[]"] by simp
  then show "\<exists>e h'. tool_schema_st (tool_class_st s) h = (e, h') \<and> prefix h h' \<and> length h \<le> e
         \<and> obj_value h' e = Some (tool_schema (tool_class s))"
    by (simp add: tool_schema_st_eq)
qed


theorem from_tool_call_no_side_effects_witness:
  "obj_at store_example 2 = Some (ToolCallObj (call_with (Some ''{\"city\": \"Tokyo\"}'')))
   \<and> obj_at store_other 0 = Some (ToolCallObj (call_with (Some ''{\"city\": \"Tokyo\"}'')))
   \<and> from_tool_call loads_examples (tool_class lookup_struct)
        (call_with (Some ''{\"city\": \"Tokyo\"}''))
     = Inr \<lparr>args = [(''city'', PyStr ''Tokyo'')],
            tool_call = call_with (Some ''{\"city\": \"Tokyo\"}'')\<rparr>
   \<and> from_tool_call_st loads_examples (tool_class_st lookup_struct) 2 store_example
     = (Inr 5,
        store_example @
        [DictObj [],
         DictObj [(''city'', Val (PyStr ''Tokyo'')), (''tool_call'', Ref 2)],
         ToolObj [(''city'', PyStr ''Tokyo'')] (Ref 2)])
   \<and> prefix store_example
        (snd (from_tool_call_st loads_examples (tool_class_st lookup_struct) 2 store_example))
   \<and> obj_at (snd (from_tool_call_st loads_examples (tool_class_st lookup_struct) 2 store_example)) 2
     = Some (ToolCallObj (call_with (Some ''{\"city\": \"Tokyo\"}'')))
   \<and> obj_at (snd (from_tool_call_st loads_examples (tool_class_st lookup_struct) 2 store_example)) 5
     = Some (ToolObj [(''city'', PyStr ''Tokyo'')] (Ref 2))
   \<and> from_tool_call_st loads_examples (tool_class_st lookup_struct) 0 store_other
     = (Inr 3,
        store_other @
        [DictObj [],
         DictObj [(''city'', Val (PyStr ''Tokyo'')), (''tool_call'', Ref 0)],
         ToolObj [(''city'', PyStr ''Tokyo'')] (Ref 0)])
   \<and> obj_at store_malformed 0 = Some (ToolCallObj (call_with (Some ''{not json'')))
   \<and> from_tool_call loads_examples (tool_class lookup_struct) (call_with (Some ''{not json''))
     = Inl ValueError_from_JSONDecodeError
   \<and> from_tool_call_st loads_examples (tool_class_st lookup_struct) 0 store_malformed
     = (Inl (Raised ValueError_from_JSONDecodeError), store_malformed @ [DictObj []])"
proof -
  let ?tc = "call_with (Some ''{\"city\": \"Tokyo\"}'')"
  let ?bad = "call_with (Some ''{not json'')"
  let ?cls = "tool_class_st lookup_struct"
  have a: "obj_at store_example 2 = Some (ToolCallObj ?tc)"
    by (simp add: store_example_def obj_at_def)
  have b: "obj_at store_other 0 = Some (ToolCallObj ?tc)"
    by (simp add: store_other_def obj_at_def)
  have m: "obj_at store_malformed 0 = Some (ToolCallObj ?bad)"
    by (simp add: store_malformed_def obj_at_def)
  have l: "loads_examples ''{\"city\": \"Tokyo\"}'' = Inr (PyDict [(''city'', PyStr ''Tokyo'')])"
    by (simp add: loads_examples_def)
  have e: "from_tool_call loads_examples (tool_class lookup_struct) ?tc
        = Inr \<lparr>args = [(''city'', PyStr ''Tokyo'')], tool_call = ?tc\<rparr>"
    using build_model_json_call_with
        [of "''{\"city\": \"Tokyo\"}''" loads_examples "[(''city'', PyStr ''Tokyo'')]"] l
    by (simp add: from_tool_call_tool_class lookup_struct_def)
  have lb: "loads_examples ''{not json'' = Inl JSONDecodeError"
    by (simp add: loads_examples_def)
  have tb: "tc_function ?bad = Some \<lparr>fn_arguments = Some ''{not json'', fn_name = Some ''lookup''\<rparr>"
    by (simp add: call_with_def)
  have eb: "from_tool_call loads_examples (tool_class lookup_struct) ?bad
        = Inl ValueError_from_JSONDecodeError"
    using load_model_json_truthy [of ?bad _ "''{not json''" loads_examples] tb lb
    by (simp add: from_tool_call_def build_model_json_def)
  have v: "\<forall>d h1. prefix h1 (snd (model_validate_st ?cls d h1))"
    by (simp add: tool_class_st_def validate_st_prefix)
  have len: "length store_example = 3" "length store_other = 1"
    by (simp_all add: store_example_def store_other_def)
  have run: "from_tool_call_st loads_examples ?cls 2 store_example
     = (Inr 5,
        store_example @
        [DictObj [],
         DictObj [(''city'', Val (PyStr ''Tokyo'')), (''tool_call'', Ref 2)],
         ToolObj [(''city'', PyStr ''Tokyo'')] (Ref 2)])"
    using from_tool_call_st_lookup [OF a] len by simp
  have run_other: "from_tool_call_st loads_examples ?cls 0 store_other
     = (Inr 3,
        store_other @
        [DictObj [],
         DictObj [(''city'', Val (PyStr ''Tokyo'')), (''tool_call'', Ref 0)],
         ToolObj [(''city'', PyStr ''Tokyo'')] (Ref 0)])"
    using from_tool_call_st_lookup [OF b] len by simp
  note th = from_tool_call_no_side_effects
      [where h = store_example and a = 2 and tc = ?tc and loads = loads_examples
         and s = lookup_struct and g = store_other and b = 0 and cls = ?cls]
  from th a have 1: "\<exists>r h'. from_tool_call_st loads_examples ?cls 2 store_example = (r, h')
         \<and> prefix store_example h'
         \<and> obj_at h' 2 = Some (ToolCallObj ?tc)
         \<and> (case from_tool_call loads_examples (tool_class lookup_struct) ?tc of
              Inl e \<Rightarrow> r = Inl (Raised e)
            | Inr tool \<Rightarrow>
                (\<exists>t. r = Inr t \<and> length store_example \<le> t
                   \<and> obj_at h' t = Some (ToolObj (args tool) (Ref 2))))"
    by blast
  from 1 have o1: "prefix store_example (snd (from_tool_call_st loads_examples ?cls 2 store_example))"
    by auto
  from 1 have o2: "obj_at (snd (from_tool_call_st loads_examples ?cls 2 store_example)) 2
     = Some (ToolCallObj ?tc)"
    by auto
  from 1 e have o3: "obj_at (snd (from_tool_call_st loads_examples ?cls 2 store_example)) 5
     = Some (ToolObj [(''city'', PyStr ''Tokyo'')] (Ref 2))"
    by (auto simp: run)
  note thb = from_tool_call_no_side_effects
      [where h = store_malformed and a = 0 and tc = ?bad and loads = loads_examples
         and s = lookup_struct and g = store_malformed and b = 0 and cls = ?cls]
  from thb m eb have 4: "fst (from_tool_call_st loads_examples ?cls 0 store_malformed)
      = Inl (Raised ValueError_from_JSONDecodeError)"
    by auto
  have 5: "snd (from_tool_call_st loads_examples ?cls 0 store_malformed)
      = store_malformed @ [DictObj []]"
    using build_model_json_st_truthy [OF m tb, of "''{not json''" loads_examples] lb
    by (simp add: from_tool_call_st_def)
  from 4 5 have bad: "from_tool_call_st loads_examples ?cls 0 store_malformed
     = (Inl (Raised ValueError_from_JSONDecodeError), store_malformed @ [DictObj []])"
    by (simp add: prod_eq_iff)
  from a b e run o1 o2 o3 run_other m eb bad show ?thesis
    by (intro conjI)
qed

text \<open>
  C9. When the function member is absent, or its arguments are \<^verbatim>\<open>None\<close> or the empty
  string, \<open>from_tool_call\<close> does not consult \<^verbatim>\<open>json.loads\<close>: the object handed to validation
  is the dict that holds the tool call only, the result is the verdict of
  \<^verbatim>\<open>model_validate\<close> on it, and it is never the parse failure. For the tool class of a
  source, validation then fails exactly when the source has a field without a default or
  declares a field named \<^verbatim>\<open>tool_call\<close>; otherwise the instance has no argument values.
\<close>

theorem empty_arguments_skip_parsing:
  assumes "tc_function tc = None \<or>
      (\<exists>f. tc_function tc = Some f \<and> (fn_arguments f = None \<or> fn_arguments f = Some []))"
  shows "build_model_json loads tc = Inr (PyDict [(''tool_call'', PyToolCall tc)])
     \<and> (\<forall>loads'. from_tool_call loads' cls tc = from_tool_call loads cls tc)
     \<and> from_tool_call loads cls tc =
         (case model_validate cls (PyDict [(''tool_call'', PyToolCall tc)]) of
            Inl e \<Rightarrow> Inl (ValidationError e)
          | Inr tool \<Rightarrow> Inr tool)
     \<and> from_tool_call loads cls tc \<noteq> Inl ValueError_from_JSONDecodeError
     \<and> (tool_type src = Inr cls \<longrightarrow>
          ((\<exists>e. from_tool_call loads cls tc = Inl (ValidationError e)) \<longleftrightarrow>
             (required_names src \<noteq> [] \<or> ''tool_call'' \<in> set (declared_names src)))
          \<and> (required_names src = [] \<and> ''tool_call'' \<notin> set (declared_names src) \<longrightarrow>
               from_tool_call loads cls tc = Inr \<lparr>args = [], tool_call = tc\<rparr>))"
proof -
  have b: "build_model_json l tc = Inr (PyDict [(''tool_call'', PyToolCall tc)])" for l
    using assms by (rule build_model_json_falsy)
  have v: "from_tool_call l cls tc =
         (case model_validate cls (PyDict [(''tool_call'', PyToolCall tc)]) of
            Inl e \<Rightarrow> Inl (ValidationError e)
          | Inr tool \<Rightarrow> Inr tool)" for l
    by (simp add: from_tool_call_def b)
  have n: "from_tool_call loads cls tc \<noteq> Inl ValueError_from_JSONDecodeError"
    by (simp add: v split: sum.splits)
  from b v n empty_arguments_validation [OF _ assms, of src cls loads]
  show ?thesis by simp
qed

theorem empty_arguments_skip_parsing_witness:
  "fn_arguments \<lparr>fn_arguments = Some [], fn_name = Some ''lookup''\<rparr> = Some []
   \<and> tool_type (FromFn lookup_fn) = Inr (tool_class lookup_struct)
   \<and> required_names (FromFn lookup_fn) = [''city'']
   \<and> build_model_json loads_examples (call_with (Some []))
        = Inr (PyDict [(''tool_call'', PyToolCall (call_with (Some [])))])
   \<and> from_tool_call loads_examples (tool_class lookup_struct) (call_with (Some []))
        = Inl (ValidationError (MissingField ''city''))
   \<and> from_tool_call loads_examples (tool_class lookup_struct) (call_with None)
        = Inl (ValidationError (MissingField ''city''))"
proof -
  have f: "tc_function (call_with a) = Some \<lparr>fn_arguments = a, fn_name = Some ''lookup''\<rparr>" for a
    by (simp add: call_with_def)
  have t: "tool_type (FromFn lookup_fn) = Inr (tool_class lookup_struct)"
    by (simp add: from_fn_lookup)
  have r: "required_names (FromFn lookup_fn) = [''city'']"
    unfolding required_names_def by (simp add: lookup_fn_def)
  have v: "model_validate (tool_class lookup_struct) (PyDict [(''tool_call'', PyToolCall c)])
      = Inl (MissingField ''city'')" for c
    by (simp add: validate_tool_class validate_def lookup_struct_def)
  from empty_arguments_skip_parsing
      [of "call_with (Some [])" loads_examples "tool_class lookup_struct" "FromFn lookup_fn"]
    empty_arguments_skip_parsing
      [of "call_with None" loads_examples "tool_class lookup_struct" "FromFn lookup_fn"]
  show ?thesis by (simp add: f from_fn_lookup r v)
qed

text \<open>
  C9 as stated, where validation fails only if required fields exist, fails: the callable
  \<^verbatim>\<open>g(tool_call: str = "x")\<close> has no required field, and with an empty arguments string
  the instantiation is a validation error, because the declared field \<^verbatim>\<open>tool_call\<close> holds
  the tool call.
\<close>

theorem empty_arguments_counterexample:
  "tool_type (FromFn collide_default_fn) = Inr (tool_class collide_default_struct)
   \<and> required_names (FromFn collide_default_fn) = []
   \<and> tc_function (call_with (Some [])) = Some \<lparr>fn_arguments = Some [], fn_name = Some ''lookup''\<rparr>
   \<and> from_tool_call loads_examples (tool_class collide_default_struct) (call_with (Some []))
        = Inl (ValidationError (WrongType ''tool_call''))"
proof -
  have r: "required_names (FromFn collide_default_fn) = []"
    unfolding required_names_def by (simp add: collide_default_fn_def)
  have f: "tc_function (call_with (Some [])) = Some \<lparr>fn_arguments = Some [], fn_name = Some ''lookup''\<rparr>"
    by (simp add: call_with_def)
  have b: "build_model_json loads_examples (call_with (Some []))
      = Inr (PyDict [(''tool_call'', PyToolCall (call_with (Some [])))])"
    by (rule build_model_json_falsy) (simp add: f)
  have "from_tool_call loads_examples (tool_class collide_default_struct) (call_with (Some []))
        = Inl (ValidationError (WrongType ''tool_call''))"
    by (simp add: from_tool_call_tool_class [OF b] collide_default_struct_def)
  with r f show ?thesis by (simp add: from_fn_collide_default)
qed

text \<open>
  C10. When the arguments string is present and \<^verbatim>\<open>json.loads\<close> decodes it to a value
  that is not a dict, \<open>from_tool_call\<close> raises \<^verbatim>\<open>TypeError\<close>: neither the parse failure
  nor a validation failure. The texts \<^verbatim>\<open>[1]\<close> and \<^verbatim>\<open>5\<close> are such inputs.
\<close>

theorem non_object_json_type_error:
  assumes "tc_function tc = Some f" "fn_arguments f = Some s" "s \<noteq> []"
    and "loads s = Inr v" "\<forall>d. v \<noteq> PyDict d"
  shows "from_tool_call loads cls tc = Inl TypeError"
  using build_model_json_non_dict [of tc f s loads v] assms
  by (simp add: from_tool_call_def)

theorem non_object_json_type_error_witness:
  "loads_examples ''[1]'' = Inr (PyList [PyInt 1])
   \<and> loads_examples ''5'' = Inr (PyInt 5)
   \<and> from_tool_call loads_examples (tool_class lookup_struct) (call_with (Some ''[1]''))
       = Inl TypeError
   \<and> from_tool_call loads_examples (tool_class lookup_struct) (call_with (Some ''5''))
       = Inl TypeError"
  using non_object_json_type_error
      [of "call_with (Some ''[1]'')" _ "''[1]''" loads_examples "PyList [PyInt 1]"
          "tool_class lookup_struct"]
    non_object_json_type_error
      [of "call_with (Some ''5'')" _ "''5''" loads_examples "PyInt 5"
          "tool_class lookup_struct"]
  by (simp add: call_with_def loads_examples_def)

end
